theory Spec2Isabelle
  imports Complex_Main "HOL-Library.AList" "HOL-Library.Sublist"
begin

section \<open>Configuration\<close>

text \<open>The constants of \<^verbatim>\<open>CONFIG\<close> in the server that the game logic reads.\<close>

definition MAP_WIDTH :: int where
  "MAP_WIDTH = 20"

definition MAP_HEIGHT :: int where
  "MAP_HEIGHT = 15"

definition MONSTER_COUNT :: nat where
  "MONSTER_COUNT = 3"

section \<open>World model\<close>

text \<open>
  The five tile kinds of \<^verbatim>\<open>TILES\<close>; the emoji of a tile is display only, its
  \<^verbatim>\<open>walkable\<close> flag is the function below.
\<close>

datatype tile = GRASS | WATER | TREE | STONE | DIRT

fun walkable :: "tile \<Rightarrow> bool" where
  "walkable GRASS = True"
| "walkable WATER = False"
| "walkable TREE = False"
| "walkable STONE = False"
| "walkable DIRT = True"

type_synonym tilemap = "tile list list"

text \<open>
  Players and monsters as the server builds them. Grid coordinates and health are
  integers; the display-only fields (emoji, and the player's name, which is derived from
  its id) are left out. A monster id is \<^verbatim>\<open>Date.now() + Math.random()\<close>, a
  number that need not be integral.
\<close>

record player =
  p_id :: nat
  p_x :: int
  p_y :: int
  p_health :: int
  p_maxHealth :: int

record monster =
  m_id :: real
  m_x :: int
  m_y :: int
  m_health :: int
  m_maxHealth :: int
  m_lastMove :: int

record fireball =
  f_id :: real
  f_playerId :: nat
  f_startX :: int
  f_startY :: int
  f_targetX :: real
  f_targetY :: real
  f_timestamp :: int

text \<open>
  Messages from a client, by their \<^verbatim>\<open>type\<close> tag; any other tag is \<open>Other\<close>. The
  coordinates of a move are the integer grid coordinates that the client sends; the
  target of a fireball is a point in pixels.
\<close>

datatype client_msg =
    Move int int
  | Fireball real real
  | Attack real
  | FireballHit real
  | Other

text \<open>Messages from the server, by their \<^verbatim>\<open>type\<close> tag, with their payload.\<close>

datatype server_msg =
    Init nat tilemap "player list" "monster list"
  | PlayerJoined player
  | PlayerLeft nat
  | PlayerMoved nat int int
  | PlayerDamaged nat int int
  | PlayerDied nat
  | FireballCast fireball
  | MonsterMoved real int int
  | MonsterDamaged real int int
  | MonsterDied real
  | MonsterSpawned monster

text \<open>
  A connection of \<^verbatim>\<open>wss.clients\<close>: the player id stored on it, whether its
  \<^verbatim>\<open>readyState\<close> is \<^verbatim>\<open>OPEN\<close>, and the messages sent on it so far, oldest first.
  A connection is identified by its position in the list of clients.
\<close>

record session =
  s_playerId :: nat
  s_open :: bool
  s_sent :: "server_msg list"

text \<open>
  The server's state: the fields of \<^verbatim>\<open>gameState\<close> (the player collection is a
  JavaScript \<^verbatim>\<open>Map\<close>, kept here as an association list in insertion order), the
  connections, and the due times of the pending \<^verbatim>\<open>setTimeout\<close> respawn callbacks.
\<close>

record server =
  players :: "(nat \<times> player) list"
  monsters :: "monster list"
  fireballs :: "fireball list"
  gmap :: tilemap
  nextPlayerId :: nat
  clients :: "session list"
  timers :: "int list"

section \<open>Spatial rules\<close>

text \<open>
  \<^verbatim>\<open>gameState.map[y][x].walkable\<close>. Reading a row or a cell that does not exist gives
  \<^verbatim>\<open>undefined\<close>, and the property access on it throws a TypeError: \<open>None\<close>.
\<close>

definition tile_walkable :: "tilemap \<Rightarrow> int \<Rightarrow> int \<Rightarrow> bool option" where
  "tile_walkable m x y =
     (if 0 \<le> y \<and> nat y < length m then
        (let row = m ! nat y in
         if 0 \<le> x \<and> nat x < length row then Some (walkable (row ! nat x)) else None)
      else None)"

definition isValidMove :: "tilemap \<Rightarrow> int \<Rightarrow> int \<Rightarrow> bool option" where
  "isValidMove m x y =
     (if x < 0 \<or> x \<ge> MAP_WIDTH \<or> y < 0 \<or> y \<ge> MAP_HEIGHT then Some False
      else tile_walkable m x y)"

section \<open>Broadcast dispatcher\<close>

text \<open>
  \<^verbatim>\<open>broadcast(message, excludeClient = null)\<close>: every client other than the excluded
  one whose connection is open is sent the message.
\<close>

definition send :: "server_msg \<Rightarrow> session \<Rightarrow> session" where
  "send msg c = c\<lparr>s_sent := s_sent c @ [msg]\<rparr>"

definition broadcast :: "server_msg \<Rightarrow> nat option \<Rightarrow> session list \<Rightarrow> session list" where
  "broadcast msg excludeClient cs =
     map (\<lambda>(i, c). if Some i \<noteq> excludeClient \<and> s_open c then send msg c else c)
       (enumerate 0 cs)"

definition sendToClient :: "nat \<Rightarrow> server_msg \<Rightarrow> session list \<Rightarrow> session list" where
  "sendToClient ws msg cs =
     (if s_open (cs ! ws) then cs[ws := send msg (cs ! ws)] else cs)"

section \<open>Intent handler\<close>

text \<open>
  \<^verbatim>\<open>monster.health -= damage\<close> on the object that \<^verbatim>\<open>find\<close> returned: the first
  monster of the array with the given id.
\<close>

fun hitMonster :: "real \<Rightarrow> int \<Rightarrow> monster list \<Rightarrow> monster list" where
  "hitMonster mid damage [] = []"
| "hitMonster mid damage (m # ms) =
     (if m_id m = mid then m\<lparr>m_health := m_health m - damage\<rparr> # ms
      else m # hitMonster mid damage ms)"

text \<open>
  \<^verbatim>\<open>handleClientMessage(ws, message)\<close>. The connection \<open>ws\<close> is its index among the
  clients; \<open>now\<close> is what \<^verbatim>\<open>Date.now()\<close> returns and \<open>rnd k\<close> what the \<open>k\<close>-th call
  of \<^verbatim>\<open>Math.random()\<close> during this handler returns. The result is \<open>None\<close> when the
  handler throws.
\<close>

definition handleClientMessage ::
  "int \<Rightarrow> (nat \<Rightarrow> real) \<Rightarrow> nat \<Rightarrow> client_msg \<Rightarrow> server \<Rightarrow> server option" where
  "handleClientMessage now rnd ws message s =
     (let playerId = s_playerId (clients s ! ws) in
      case map_of (players s) playerId of
        None \<Rightarrow> Some s
      | Some player \<Rightarrow>
         (case message of
            Move x y \<Rightarrow>
              (case isValidMove (gmap s) x y of
                 None \<Rightarrow> None
               | Some False \<Rightarrow> Some s
               | Some True \<Rightarrow>
                   Some (s\<lparr>players :=
                             AList.update playerId (player\<lparr>p_x := x, p_y := y\<rparr>) (players s),
                           clients := broadcast (PlayerMoved playerId x y) None (clients s)\<rparr>))
          | Fireball targetX targetY \<Rightarrow>
              (let fireball = \<lparr>f_id = real_of_int now + rnd 0, f_playerId = playerId,
                                f_startX = p_x player, f_startY = p_y player,
                                f_targetX = targetX, f_targetY = targetY,
                                f_timestamp = now\<rparr>
               in Some (s\<lparr>fireballs := fireballs s @ [fireball],
                          clients := broadcast (FireballCast fireball) None (clients s)\<rparr>))
          | Attack targetMonsterId \<Rightarrow>
              (case find (\<lambda>m. m_id m = targetMonsterId) (monsters s) of
                 None \<Rightarrow> Some s
               | Some monster \<Rightarrow>
                   (let damage = \<lfloor>rnd 0 * 5\<rfloor> + 8;
                        health = m_health monster - damage;
                        ms = hitMonster targetMonsterId damage (monsters s)
                    in if health \<le> 0 then
                         Some (s\<lparr>monsters := filter (\<lambda>m. m_id m \<noteq> targetMonsterId) ms,
                                 clients := broadcast (MonsterDied targetMonsterId) None (clients s),
                                 timers := timers s @ [now + 5000]\<rparr>)
                       else
                         Some (s\<lparr>monsters := ms,
                                 clients := broadcast (MonsterDamaged targetMonsterId health damage)
                                              None (clients s)\<rparr>)))
          | FireballHit hitMonsterId \<Rightarrow>
              (case find (\<lambda>m. m_id m = hitMonsterId) (monsters s) of
                 None \<Rightarrow> Some s
               | Some hitMonster' \<Rightarrow>
                   (let damage = 15;
                        health = m_health hitMonster' - damage;
                        ms = hitMonster hitMonsterId damage (monsters s)
                    in if health \<le> 0 then
                         Some (s\<lparr>monsters := filter (\<lambda>m. m_id m \<noteq> hitMonsterId) ms,
                                 clients := broadcast (MonsterDied hitMonsterId) None (clients s),
                                 timers := timers s @ [now + 5000]\<rparr>)
                       else
                         Some (s\<lparr>monsters := ms,
                                 clients := broadcast (MonsterDamaged hitMonsterId health damage)
                                              None (clients s)\<rparr>)))
          | Other \<Rightarrow> Some s))"

text \<open>
  The \<^verbatim>\<open>message\<close> callback of a connection: an exception of the handler is caught
  and logged, and the server goes on with the state as it is. No handler case changes
  the state before it throws.
\<close>

definition onMessage :: "int \<Rightarrow> (nat \<Rightarrow> real) \<Rightarrow> nat \<Rightarrow> client_msg \<Rightarrow> server \<Rightarrow> server" where
  "onMessage now rnd ws message s =
     (case handleClientMessage now rnd ws message s of None \<Rightarrow> s | Some s' \<Rightarrow> s')"

section \<open>Map generation\<close>

text \<open>
  \<^verbatim>\<open>generateMap()\<close>: one \<^verbatim>\<open>Math.random()\<close> per cell, rows first; the draw of cell
  \<open>(x, y)\<close> is \<open>rnd (y * 20 + x)\<close>.
\<close>

definition tileFor :: "int \<Rightarrow> int \<Rightarrow> real \<Rightarrow> tile" where
  "tileFor x y rand =
     (if x = 0 \<or> x = MAP_WIDTH - 1 \<or> y = 0 \<or> y = MAP_HEIGHT - 1 then WATER
      else if rand < 0.7 then GRASS
      else if rand < 0.8 then DIRT
      else if rand < 0.9 then TREE
      else if rand < 0.95 then STONE
      else WATER)"

definition generateMap :: "(nat \<Rightarrow> real) \<Rightarrow> tilemap" where
  "generateMap rnd =
     map (\<lambda>y. map (\<lambda>x. tileFor (int x) (int y) (rnd (y * nat MAP_WIDTH + x)))
                [0..<nat MAP_WIDTH])
       [0..<nat MAP_HEIGHT]"

text \<open>The shape of every generated map: \<^verbatim>\<open>MAP_HEIGHT\<close> rows of \<^verbatim>\<open>MAP_WIDTH\<close> tiles.\<close>

definition wf_map :: "tilemap \<Rightarrow> bool" where
  "wf_map m = (length m = nat MAP_HEIGHT \<and> list_all (\<lambda>row. length row = nat MAP_WIDTH) m)"

section \<open>Spawning\<close>

text \<open>
  \<^verbatim>\<open>findSpawnPosition()\<close>: the do-while loop, entered with \<open>attempts\<close> tries made;
  try number \<open>attempts\<close> (from 0) draws \<open>rnd (2 * attempts)\<close> for \<open>x\<close> and the next
  draw for \<open>y\<close>. The loop also returns its count of tries.
\<close>

function findSpawnLoop :: "tilemap \<Rightarrow> (nat \<Rightarrow> real) \<Rightarrow> nat \<Rightarrow> (int \<times> int \<times> nat) option" where
  "findSpawnLoop m rnd attempts =
     (let x = \<lfloor>rnd (2 * attempts) * real_of_int (MAP_WIDTH - 4)\<rfloor> + 2;
          y = \<lfloor>rnd (2 * attempts + 1) * real_of_int (MAP_HEIGHT - 4)\<rfloor> + 2;
          attempts' = attempts + 1
      in case tile_walkable m x y of
           None \<Rightarrow> None
         | Some w \<Rightarrow>
             if \<not> w \<and> attempts' < 100 then findSpawnLoop m rnd attempts'
             else Some (x, y, attempts'))"
  by pat_completeness auto
termination
  by (relation "measure (\<lambda>(m, rnd, attempts). 100 - attempts)") auto

definition findSpawnPosition :: "tilemap \<Rightarrow> (nat \<Rightarrow> real) \<Rightarrow> (int \<times> int) option" where
  "findSpawnPosition m rnd =
     (case findSpawnLoop m rnd 0 of None \<Rightarrow> None | Some (x, y, attempts) \<Rightarrow> Some (x, y))"

text \<open>
  The do-while loop of \<^verbatim>\<open>spawnMonster()\<close>, which has no bound on its tries; \<open>k\<close> is
  the number of draws made so far. \<open>None\<close>: the loop throws or never ends.
\<close>

partial_function (option) spawnMonsterLoop ::
  "tilemap \<Rightarrow> (nat \<Rightarrow> real) \<Rightarrow> nat \<Rightarrow> (int \<times> int \<times> nat) option" where
  "spawnMonsterLoop m rnd k =
     (let x = \<lfloor>rnd k * real_of_int MAP_WIDTH\<rfloor>;
          y = \<lfloor>rnd (k + 1) * real_of_int MAP_HEIGHT\<rfloor>
      in case tile_walkable m x y of
           None \<Rightarrow> None
         | Some w \<Rightarrow> if \<not> w then spawnMonsterLoop m rnd (k + 2) else Some (x, y, k + 2))"

definition spawnMonster ::
  "int \<Rightarrow> (nat \<Rightarrow> real) \<Rightarrow> nat \<Rightarrow> server \<Rightarrow> (monster \<times> nat \<times> server) option" where
  "spawnMonster now rnd k s =
     (case spawnMonsterLoop (gmap s) rnd k of
        None \<Rightarrow> None
      | Some (x, y, k') \<Rightarrow>
          (let monster = \<lparr>m_id = real_of_int now + rnd k', m_x = x, m_y = y, m_health = 50,
                           m_maxHealth = 50, m_lastMove = now\<rparr>
           in Some (monster, k' + 1, s\<lparr>monsters := monsters s @ [monster]\<rparr>)))"

fun spawnMonsters :: "nat \<Rightarrow> int \<Rightarrow> (nat \<Rightarrow> real) \<Rightarrow> nat \<Rightarrow> server \<Rightarrow> server option" where
  "spawnMonsters 0 now rnd k s = Some s"
| "spawnMonsters (Suc n) now rnd k s =
     (case spawnMonster now rnd k s of
        None \<Rightarrow> None
      | Some (monster, k', s') \<Rightarrow> spawnMonsters n now rnd k' s')"

text \<open>\<^verbatim>\<open>initGame()\<close>: the map takes the first 300 draws, the monsters the following ones.\<close>

definition initGame :: "int \<Rightarrow> (nat \<Rightarrow> real) \<Rightarrow> server \<Rightarrow> server option" where
  "initGame now rnd s =
     spawnMonsters MONSTER_COUNT now rnd (nat MAP_HEIGHT * nat MAP_WIDTH)
       (s\<lparr>gmap := generateMap rnd\<rparr>)"

text \<open>The callback that a monster's death schedules with \<^verbatim>\<open>setTimeout(..., 5000)\<close>.\<close>

definition respawn :: "int \<Rightarrow> (nat \<Rightarrow> real) \<Rightarrow> server \<Rightarrow> server option" where
  "respawn now rnd s =
     (case spawnMonster now rnd 0 s of
        None \<Rightarrow> None
      | Some (newMonster, k, s') \<Rightarrow>
          Some (s'\<lparr>clients := broadcast (MonsterSpawned newMonster) None (clients s')\<rparr>))"

text \<open>
  The timers all have the same delay, so they run in the order in which they were set:
  the oldest one runs once its time has come.
\<close>

definition fireTimer :: "int \<Rightarrow> (nat \<Rightarrow> real) \<Rightarrow> server \<Rightarrow> server option" where
  "fireTimer now rnd s =
     (case timers s of
        [] \<Rightarrow> Some s
      | due # rest \<Rightarrow> if due \<le> now then respawn now rnd (s\<lparr>timers := rest\<rparr>) else Some s)"

section \<open>Session registry\<close>

text \<open>
  The \<^verbatim>\<open>connection\<close> callback. The new connection is the last of the clients and is
  open.
\<close>

definition onConnection :: "(nat \<Rightarrow> real) \<Rightarrow> server \<Rightarrow> server option" where
  "onConnection rnd s =
     (let playerId = nextPlayerId s in
      case findSpawnPosition (gmap s) rnd of
        None \<Rightarrow> None
      | Some (x, y) \<Rightarrow>
          (let player = \<lparr>p_id = playerId, p_x = x, p_y = y, p_health = 100, p_maxHealth = 100\<rparr>;
               ps = AList.update playerId player (players s);
               ws = length (clients s);
               cs0 = clients s @ [\<lparr>s_playerId = playerId, s_open = True, s_sent = []\<rparr>];
               cs1 = sendToClient ws (Init playerId (gmap s) (map snd ps) (monsters s)) cs0;
               cs2 = broadcast (PlayerJoined player) (Some ws) cs1
           in Some (s\<lparr>nextPlayerId := playerId + 1, players := ps, clients := cs2\<rparr>)))"

text \<open>
  The \<^verbatim>\<open>close\<close> callback of connection \<open>ws\<close>, which is no longer open when the
  callback runs.
\<close>

definition onClose :: "nat \<Rightarrow> server \<Rightarrow> server" where
  "onClose ws s =
     (let playerId = s_playerId (clients s ! ws);
          cs = (clients s)[ws := (clients s ! ws)\<lparr>s_open := False\<rparr>]
      in s\<lparr>players := AList.delete playerId (players s),
            clients := broadcast (PlayerLeft playerId) None cs\<rparr>)"

section \<open>Monster AI\<close>

text \<open>
  The scan for the nearest player, in the insertion order of the player collection.
  \<open>minDistance\<close> starts as \<^verbatim>\<open>Infinity\<close>, which is \<open>None\<close> here.
\<close>

fun lessInf :: "real \<Rightarrow> real option \<Rightarrow> bool" where
  "lessInf d None = True"
| "lessInf d (Some m) = (d < m)"

fun leqInf :: "real option \<Rightarrow> real \<Rightarrow> bool" where
  "leqInf None d = False"
| "leqInf (Some m) d = (m \<le> d)"

fun nearestPlayerScan ::
  "monster \<Rightarrow> (nat \<times> player) list \<Rightarrow> (nat \<times> player) option \<times> real option \<Rightarrow>
   (nat \<times> player) option \<times> real option" where
  "nearestPlayerScan monster [] acc = acc"
| "nearestPlayerScan monster ((k, player) # ps) (nearestPlayer, minDistance) =
     (let distance = sqrt ((real_of_int (p_x player - m_x monster))\<^sup>2 +
                           (real_of_int (p_y player - m_y monster))\<^sup>2)
      in if lessInf distance minDistance
         then nearestPlayerScan monster ps (Some (k, player), Some distance)
         else nearestPlayerScan monster ps (nearestPlayer, minDistance))"

text \<open>The direction of the greedy step, from the deltas to the nearest player.\<close>

definition stepDirection :: "int \<Rightarrow> int \<Rightarrow> int \<times> int" where
  "stepDirection dx dy =
     (if \<bar>dx\<bar> > \<bar>dy\<bar> then (if dx > 0 then 1 else -1, 0)
      else if \<bar>dy\<bar> > \<bar>dx\<bar> then (0, if dy > 0 then 1 else -1)
      else if dx \<noteq> 0 then (if dx > 0 then 1 else -1, if dy > 0 then 1 else -1)
      else (0, 0))"

text \<open>
  The body of the \<^verbatim>\<open>forEach\<close> over the monsters in \<^verbatim>\<open>gameLoop()\<close>, for one
  monster: \<open>k\<close> counts the draws made so far in this tick, \<open>ps\<close> and \<open>cs\<close> are the
  players and the connections as the monsters before this one left them.
\<close>

definition monsterTick ::
  "int \<Rightarrow> (nat \<Rightarrow> real) \<Rightarrow> tilemap \<Rightarrow> monster \<Rightarrow> nat \<times> (nat \<times> player) list \<times> session list \<Rightarrow>
   (monster \<times> nat \<times> (nat \<times> player) list \<times> session list) option" where
  "monsterTick now rnd m monster acc =
     (case acc of (k, ps, cs) \<Rightarrow>
      if now - m_lastMove monster > 500 then
        (let monster1 = monster\<lparr>m_lastMove := now\<rparr> in
         case nearestPlayerScan monster ps (None, None) of
           (None, minDistance) \<Rightarrow> Some (monster1, k, ps, cs)
         | (Some (pid, nearestPlayer), minDistance) \<Rightarrow>
            (let dx = p_x nearestPlayer - m_x monster;
                 dy = p_y nearestPlayer - m_y monster;
                 newX = m_x monster + fst (stepDirection dx dy);
                 newY = m_y monster + snd (stepDirection dx dy)
             in case isValidMove m newX newY of
                  None \<Rightarrow> None
                | Some valid \<Rightarrow>
                   (let monster2 = (if valid then monster1\<lparr>m_x := newX, m_y := newY\<rparr>
                                    else monster1);
                        cs1 = (if valid
                               then broadcast (MonsterMoved (m_id monster) newX newY) None cs
                               else cs)
                    in if leqInf minDistance 1.5 then
                         (if rnd k < 0.3 then
                            (let damage = \<lfloor>rnd (k + 1) * 6\<rfloor> + 5;
                                 health = p_health nearestPlayer - damage;
                                 ps1 = AList.update pid (nearestPlayer\<lparr>p_health := health\<rparr>) ps;
                                 cs2 = broadcast (PlayerDamaged (p_id nearestPlayer) health damage)
                                         None cs1;
                                 cs3 = (if health \<le> 0
                                        then broadcast (PlayerDied (p_id nearestPlayer)) None cs2
                                        else cs2)
                             in Some (monster2, k + 2, ps1, cs3))
                          else Some (monster2, k + 1, ps, cs1))
                       else Some (monster2, k, ps, cs1))))
      else Some (monster, k, ps, cs))"

fun gameLoopMonsters ::
  "int \<Rightarrow> (nat \<Rightarrow> real) \<Rightarrow> tilemap \<Rightarrow> monster list \<Rightarrow> nat \<times> (nat \<times> player) list \<times> session list \<Rightarrow>
   (monster list \<times> nat \<times> (nat \<times> player) list \<times> session list) option" where
  "gameLoopMonsters now rnd m [] acc = Some ([], acc)"
| "gameLoopMonsters now rnd m (monster # rest) acc =
     (case monsterTick now rnd m monster acc of
        None \<Rightarrow> None
      | Some (monster', acc') \<Rightarrow>
          (case gameLoopMonsters now rnd m rest acc' of
             None \<Rightarrow> None
           | Some (rest', acc'') \<Rightarrow> Some (monster' # rest', acc'')))"

definition gameLoop :: "int \<Rightarrow> (nat \<Rightarrow> real) \<Rightarrow> server \<Rightarrow> server option" where
  "gameLoop now rnd s =
     (case gameLoopMonsters now rnd (gmap s) (monsters s) (0, players s, clients s) of
        None \<Rightarrow> None
      | Some (ms, k, ps, cs) \<Rightarrow> Some (s\<lparr>monsters := ms, players := ps, clients := cs\<rparr>))"

section \<open>The event loop\<close>

text \<open>
  The server runs one callback at a time, to its end: a connection, a message, a close,
  a tick of the game loop, or a respawn timer.
\<close>

datatype event = Connect | Message nat client_msg | Close nat | Tick | Timer

fun step :: "int \<Rightarrow> (nat \<Rightarrow> real) \<Rightarrow> event \<Rightarrow> server \<Rightarrow> server option" where
  "step now rnd Connect s = onConnection rnd s"
| "step now rnd (Message ws message) s = Some (onMessage now rnd ws message s)"
| "step now rnd (Close ws) s = Some (onClose ws s)"
| "step now rnd Tick s = gameLoop now rnd s"
| "step now rnd Timer s = fireTimer now rnd s"

section \<open>The single-player client\<close>

text \<open>
  The \<^verbatim>\<open>Entity\<close> class of the single-player game and its monster's
  \<^verbatim>\<open>moveTowardsPlayer()\<close>, which the server's game loop has a copy of. An entity is
  its position and health; \<^verbatim>\<open>game.map\<close> is the argument \<open>m\<close>.
\<close>

record entity =
  e_x :: int
  e_y :: int
  e_health :: int
  e_maxHealth :: int

definition canMoveTo :: "tilemap \<Rightarrow> int \<Rightarrow> int \<Rightarrow> bool option" where
  "canMoveTo m x y =
     (if x < 0 \<or> x \<ge> MAP_WIDTH \<or> y < 0 \<or> y \<ge> MAP_HEIGHT then Some False
      else tile_walkable m x y)"

definition moveTo :: "tilemap \<Rightarrow> entity \<Rightarrow> int \<Rightarrow> int \<Rightarrow> (entity \<times> bool) option" where
  "moveTo m this x y =
     (case canMoveTo m x y of
        None \<Rightarrow> None
      | Some True \<Rightarrow> Some (this\<lparr>e_x := x, e_y := y\<rparr>, True)
      | Some False \<Rightarrow> Some (this, False))"

definition takeDamage :: "entity \<Rightarrow> int \<Rightarrow> entity \<times> bool" where
  "takeDamage this damage =
     (let this' = this\<lparr>e_health := max 0 (e_health this - damage)\<rparr>
      in (this', e_health this' \<le> 0))"

definition moveTowardsPlayer :: "tilemap \<Rightarrow> entity \<Rightarrow> entity \<Rightarrow> entity option" where
  "moveTowardsPlayer m player this =
     (let dx = e_x player - e_x this;
          dy = e_y player - e_y this;
          moveX = fst (stepDirection dx dy);
          moveY = snd (stepDirection dx dy)
      in case moveTo m this (e_x this + moveX) (e_y this + moveY) of
           None \<Rightarrow> None
         | Some (this1, True) \<Rightarrow> Some this1
         | Some (this1, False) \<Rightarrow>
             if moveX \<noteq> 0 then
               (case moveTo m this1 (e_x this1 + moveX) (e_y this1) of
                  None \<Rightarrow> None
                | Some (this2, True) \<Rightarrow> Some this2
                | Some (this2, False) \<Rightarrow>
                    (case moveTo m this2 (e_x this2) (e_y this2 + moveY) of
                       None \<Rightarrow> None
                     | Some (this3, moved) \<Rightarrow> Some this3))
             else Some this1)"

section \<open>The damage contract of the specification\<close>

text \<open>
  The contract that the specification gives for a melee attack and for a fireball hit, in
  its words, for a damage value \<open>damage\<close>: look the monster up; if it is absent, do
  nothing. Otherwise subtract the damage from its health and either broadcast a damage
  update, if the health remains positive, or remove the monster, broadcast its death and
  schedule a respawn 5000 ms later.
\<close>

definition damageContract :: "int \<Rightarrow> int \<Rightarrow> real \<Rightarrow> server \<Rightarrow> server" where
  "damageContract now damage monsterId s =
     (case find (\<lambda>m. m_id m = monsterId) (monsters s) of
        None \<Rightarrow> s
      | Some monster \<Rightarrow>
          if 0 < m_health monster - damage then
            s\<lparr>monsters := hitMonster monsterId damage (monsters s),
              clients := broadcast (MonsterDamaged monsterId (m_health monster - damage) damage)
                           None (clients s)\<rparr>
          else
            s\<lparr>monsters := filter (\<lambda>m. m_id m \<noteq> monsterId) (monsters s),
              clients := broadcast (MonsterDied monsterId) None (clients s),
              timers := timers s @ [now + 5000]\<rparr>)"

section \<open>Example states\<close>

text \<open>
  A map as \<^verbatim>\<open>generateMap()\<close> builds it: water on the border, a tree at \<open>(2, 2)\<close> and
  at \<open>(6, 6)\<close>, grass elsewhere.
\<close>

definition demoRnd :: "nat \<Rightarrow> real" where
  "demoRnd k = (if k = 42 \<or> k = 126 then 0.85 else 0.5)"

definition demoMap :: tilemap where
  "demoMap = generateMap demoRnd"

text \<open>
  Two players and a monster; three connections, of which the last is closed and belongs
  to a player that has left.
\<close>

definition demoServer :: server where
  "demoServer =
     \<lparr>players = [(1, \<lparr>p_id = 1, p_x = 5, p_y = 5, p_health = 100, p_maxHealth = 100\<rparr>),
                 (2, \<lparr>p_id = 2, p_x = 10, p_y = 8, p_health = 5, p_maxHealth = 100\<rparr>)],
      monsters = [\<lparr>m_id = 7, m_x = 5, m_y = 7, m_health = 50, m_maxHealth = 50,
                   m_lastMove = 0\<rparr>],
      fireballs = [],
      gmap = demoMap,
      nextPlayerId = 4,
      clients = [\<lparr>s_playerId = 1, s_open = True, s_sent = []\<rparr>,
                 \<lparr>s_playerId = 2, s_open = True, s_sent = []\<rparr>,
                 \<lparr>s_playerId = 3, s_open = False, s_sent = []\<rparr>],
      timers = []\<rparr>"

text \<open>
  The example state with the monster next to player 2, whose health is 5, and draws
  with which the monster attacks (\<open>0.1 < 0.3\<close>) for \<open>\<lfloor>0.9 * 6\<rfloor> + 5 = 10\<close> damage.
\<close>

definition demoAdjacent :: server where
  "demoAdjacent =
     demoServer\<lparr>monsters := [\<lparr>m_id = 7, m_x = 10, m_y = 9, m_health = 50, m_maxHealth = 50,
                               m_lastMove = 0\<rparr>]\<rparr>"

definition attackRnd :: "nat \<Rightarrow> real" where
  "attackRnd k = (if k = 0 then 0.1 else 0.9)"

text \<open>
  The example state with player 1 at \<open>(7, 7)\<close> and the monster at \<open>(5, 5)\<close>: the deltas
  are equal, the diagonal neighbour \<open>(6, 6)\<close> of the monster is a tree and its horizontal
  neighbour \<open>(6, 5)\<close> is grass.
\<close>

definition demoDiagonal :: server where
  "demoDiagonal =
     demoServer\<lparr>players := [(1, \<lparr>p_id = 1, p_x = 7, p_y = 7, p_health = 100, p_maxHealth = 100\<rparr>),
                              (2, \<lparr>p_id = 2, p_x = 10, p_y = 8, p_health = 5, p_maxHealth = 100\<rparr>)],
                 monsters := [\<lparr>m_id = 7, m_x = 5, m_y = 5, m_health = 50, m_maxHealth = 50,
                               m_lastMove = 0\<rparr>]\<rparr>"

section \<open>Basic facts\<close>

lemmas config_defs = MAP_WIDTH_def MAP_HEIGHT_def

lemmas demo_defs = demoServer_def demoMap_def demoRnd_def generateMap_def tileFor_def

lemma nth_broadcast:
  "i < length cs \<Longrightarrow> broadcast msg ex cs ! i =
     (if Some i \<noteq> ex \<and> s_open (cs ! i) then send msg (cs ! i) else cs ! i)"
  by (simp add: broadcast_def nth_enumerate_eq)

lemma length_broadcast: "length (broadcast msg ex cs) = length cs"
  by (simp add: broadcast_def)

lemma generateMap_wf: "wf_map (generateMap rnd)"
  by (simp add: wf_map_def generateMap_def list_all_iff)

lemma tile_walkable_wf:
  assumes "wf_map m" "0 \<le> x" "x < MAP_WIDTH" "0 \<le> y" "y < MAP_HEIGHT"
  shows "tile_walkable m x y = Some (walkable (m ! nat y ! nat x))"
proof -
  from assms have y: "nat y < length m" by (simp add: wf_map_def)
  with assms have "length (m ! nat y) = nat MAP_WIDTH"
    by (simp add: wf_map_def list_all_length)
  with assms y show ?thesis by (simp add: tile_walkable_def)
qed

lemma isValidMove_iff:
  "isValidMove m x y = Some True \<longleftrightarrow>
     0 \<le> x \<and> x < 20 \<and> 0 \<le> y \<and> y < 15 \<and> tile_walkable m x y = Some True"
  by (auto simp: isValidMove_def config_defs)

lemma demo_tile_6_5: "tile_walkable demoMap 6 5 = Some True"
  by (simp add: tile_walkable_def demo_defs config_defs)

lemma demo_tile_0_0: "tile_walkable demoMap 0 0 = Some False"
  by (simp add: tile_walkable_def demo_defs config_defs)

section \<open>Move requests\<close>

text \<open>
  Claim C1. A move request of a connected player to \<open>(x, y)\<close> is accepted if and only
  if \<open>0 \<le> x < 20\<close>, \<open>0 \<le> y < 15\<close> and the tile at \<open>(x, y)\<close> is walkable. An accepted
  request puts the sender's player at \<open>(x, y)\<close>; a rejected one leaves the whole state as
  it was: nothing is sent on any connection and every connection stays as open as it
  was.
\<close>

theorem move_accepted_iff_walkable:
  assumes "map_of (players s) (s_playerId (clients s ! ws)) = Some p"
  shows "onMessage now rnd ws (Move x y) s =
           (if 0 \<le> x \<and> x < 20 \<and> 0 \<le> y \<and> y < 15 \<and> tile_walkable (gmap s) x y = Some True
            then s\<lparr>players := AList.update (s_playerId (clients s ! ws)) (p\<lparr>p_x := x, p_y := y\<rparr>)
                                (players s),
                   clients := broadcast (PlayerMoved (s_playerId (clients s ! ws)) x y) None
                                (clients s)\<rparr>
            else s)
         \<and> (0 \<le> x \<and> x < 20 \<and> 0 \<le> y \<and> y < 15 \<and> tile_walkable (gmap s) x y = Some True \<longrightarrow>
              map_of (players (onMessage now rnd ws (Move x y) s)) (s_playerId (clients s ! ws)) =
                Some (p\<lparr>p_x := x, p_y := y\<rparr>))"
proof -
  let ?ok = "0 \<le> x \<and> x < 20 \<and> 0 \<le> y \<and> y < 15 \<and> tile_walkable (gmap s) x y = Some True"
  have ok: "?ok \<longleftrightarrow> isValidMove (gmap s) x y = Some True"
    by (simp add: isValidMove_iff)
  have eq: "onMessage now rnd ws (Move x y) s =
           (if ?ok
            then s\<lparr>players := AList.update (s_playerId (clients s ! ws)) (p\<lparr>p_x := x, p_y := y\<rparr>)
                                (players s),
                   clients := broadcast (PlayerMoved (s_playerId (clients s ! ws)) x y) None
                                (clients s)\<rparr>
            else s)"
    unfolding ok using assms
    by (cases "isValidMove (gmap s) x y") (auto simp: onMessage_def handleClientMessage_def Let_def)
  have "?ok \<longrightarrow> map_of (players (onMessage now rnd ws (Move x y) s)) (s_playerId (clients s ! ws)) =
             Some (p\<lparr>p_x := x, p_y := y\<rparr>)"
    by (simp add: eq update_conv')
  with eq show ?thesis by blast
qed

theorem move_accepted_iff_walkable_witness:
  "map_of (players demoServer) (s_playerId (clients demoServer ! 0)) =
     Some \<lparr>p_id = 1, p_x = 5, p_y = 5, p_health = 100, p_maxHealth = 100\<rparr>
   \<and> tile_walkable (gmap demoServer) 6 5 = Some True
   \<and> map_of (players (onMessage 0 demoRnd 0 (Move 6 5) demoServer)) 1 =
       Some \<lparr>p_id = 1, p_x = 6, p_y = 5, p_health = 100, p_maxHealth = 100\<rparr>
   \<and> tile_walkable (gmap demoServer) 0 0 = Some False
   \<and> onMessage 0 demoRnd 0 (Move 0 0) demoServer = demoServer
   \<and> onMessage 0 demoRnd 0 (Move 20 5) demoServer = demoServer"
proof -
  have p: "map_of (players demoServer) (s_playerId (clients demoServer ! 0)) =
     Some \<lparr>p_id = 1, p_x = 5, p_y = 5, p_health = 100, p_maxHealth = 100\<rparr>"
    by (simp add: demoServer_def)
  have g: "gmap demoServer = demoMap" by (simp add: demoServer_def)
  have c: "s_playerId (clients demoServer ! 0) = 1" by (simp add: demoServer_def)
  show ?thesis
    using move_accepted_iff_walkable [OF p, where x = 6 and y = 5 and now = 0 and rnd = demoRnd]
      move_accepted_iff_walkable [OF p, where x = 0 and y = 0 and now = 0 and rnd = demoRnd]
      move_accepted_iff_walkable [OF p, where x = 20 and y = 5 and now = 0 and rnd = demoRnd]
    by (simp add: g c demo_tile_6_5 demo_tile_0_0) (simp add: demoServer_def)
qed

section \<open>Messages of a player that has left\<close>

text \<open>
  Claim C10. A message of any type on a connection whose player id is not in the player
  collection leaves the whole state unchanged, so nothing is sent on any connection.
\<close>

theorem absent_player_message_ignored:
  assumes "map_of (players s) (s_playerId (clients s ! ws)) = None"
  shows "handleClientMessage now rnd ws message s = Some s \<and> onMessage now rnd ws message s = s"
  using assms by (simp add: handleClientMessage_def onMessage_def)

theorem absent_player_message_ignored_witness:
  "map_of (players demoServer) (s_playerId (clients demoServer ! 2)) = None
   \<and> handleClientMessage 0 demoRnd 2 (FireballHit 7) demoServer = Some demoServer
   \<and> onMessage 0 demoRnd 2 (FireballHit 7) demoServer = demoServer"
proof -
  have "map_of (players demoServer) (s_playerId (clients demoServer ! 2)) = None"
    by (simp add: demoServer_def)
  then show ?thesis
    using absent_player_message_ignored [where s = demoServer and ws = 2 and now = 0 and rnd = demoRnd
        and message = "FireballHit 7"] by simp
qed

section \<open>Who receives an accepted move\<close>

lemma demo_valid_6_5: "isValidMove (gmap demoServer) 6 5 = Some True"
  by (simp add: isValidMove_iff demoServer_def demo_tile_6_5)

lemma onMessage_Move_valid:
  assumes "map_of (players s) (s_playerId (clients s ! ws)) = Some p"
    and "isValidMove (gmap s) x y = Some True"
  shows "onMessage now rnd ws (Move x y) s =
           s\<lparr>players := AList.update (s_playerId (clients s ! ws)) (p\<lparr>p_x := x, p_y := y\<rparr>)
                          (players s),
             clients := broadcast (PlayerMoved (s_playerId (clients s ! ws)) x y) None
                          (clients s)\<rparr>"
  using assms by (simp add: onMessage_def handleClientMessage_def Let_def)

lemma demo_player_0:
  "map_of (players demoServer) (s_playerId (clients demoServer ! 0)) =
     Some \<lparr>p_id = 1, p_x = 5, p_y = 5, p_health = 100, p_maxHealth = 100\<rparr>"
  by (simp add: demoServer_def)

lemma demo_clients:
  "clients demoServer = [\<lparr>s_playerId = 1, s_open = True, s_sent = []\<rparr>,
                 \<lparr>s_playerId = 2, s_open = True, s_sent = []\<rparr>,
                 \<lparr>s_playerId = 3, s_open = False, s_sent = []\<rparr>]"
  by (simp add: demoServer_def)

lemma demo_move_clients:
  "clients (onMessage 0 demoRnd 0 (Move 6 5) demoServer) =
     [\<lparr>s_playerId = 1, s_open = True, s_sent = [PlayerMoved 1 6 5]\<rparr>,
      \<lparr>s_playerId = 2, s_open = True, s_sent = [PlayerMoved 1 6 5]\<rparr>,
      \<lparr>s_playerId = 3, s_open = False, s_sent = []\<rparr>]"
  by (simp add: onMessage_Move_valid [OF demo_player_0 demo_valid_6_5] demo_clients
      broadcast_def send_def)

text \<open>
  Claim C3 says that the \<^verbatim>\<open>playerMoved\<close> message of an accepted move is not
  delivered to the connection that sent the move. The handler calls
  \<^verbatim>\<open>broadcast\<close> without a connection to exclude: in the example state, player 1 on
  connection 0 moves to the walkable tile \<open>(6, 5)\<close>, and connection 0, which had been
  sent nothing, is sent the message.
\<close>

theorem move_broadcast_reaches_sender:
  "isValidMove (gmap demoServer) 6 5 = Some True
   \<and> s_sent (clients demoServer ! 0) = []
   \<and> s_sent (clients (onMessage 0 demoRnd 0 (Move 6 5) demoServer) ! 0) = [PlayerMoved 1 6 5]"
  by (simp add: demo_valid_6_5 demo_move_clients demo_clients)

text \<open>
  Claim C3, amended. For every accepted move request the \<^verbatim>\<open>playerMoved\<close> message is
  delivered to every open connection, the sender's included: each open connection is
  sent exactly this one message, and a connection that is not open is sent nothing.
\<close>

theorem move_broadcast_to_all_open:
  assumes "map_of (players s) (s_playerId (clients s ! ws)) = Some p"
    and "isValidMove (gmap s) x y = Some True"
  shows "length (clients (onMessage now rnd ws (Move x y) s)) = length (clients s)
         \<and> (\<forall>i<length (clients s).
               clients (onMessage now rnd ws (Move x y) s) ! i =
                 (if s_open (clients s ! i)
                  then send (PlayerMoved (s_playerId (clients s ! ws)) x y) (clients s ! i)
                  else clients s ! i))
         \<and> (ws < length (clients s) \<and> s_open (clients s ! ws) \<longrightarrow>
               s_sent (clients (onMessage now rnd ws (Move x y) s) ! ws) =
                 s_sent (clients s ! ws) @ [PlayerMoved (s_playerId (clients s ! ws)) x y])"
  by (simp add: onMessage_Move_valid [OF assms] length_broadcast nth_broadcast send_def)

theorem move_broadcast_to_all_open_witness:
  "map_of (players demoServer) (s_playerId (clients demoServer ! 0)) =
     Some \<lparr>p_id = 1, p_x = 5, p_y = 5, p_health = 100, p_maxHealth = 100\<rparr>
   \<and> isValidMove (gmap demoServer) 6 5 = Some True
   \<and> s_open (clients demoServer ! 0)
   \<and> length (clients (onMessage 0 demoRnd 0 (Move 6 5) demoServer)) = 3
   \<and> s_sent (clients (onMessage 0 demoRnd 0 (Move 6 5) demoServer) ! 0) =
       s_sent (clients demoServer ! 0) @ [PlayerMoved 1 6 5]
   \<and> clients (onMessage 0 demoRnd 0 (Move 6 5) demoServer) ! 1 =
       \<lparr>s_playerId = 2, s_open = True, s_sent = [PlayerMoved 1 6 5]\<rparr>
   \<and> clients (onMessage 0 demoRnd 0 (Move 6 5) demoServer) ! 2 =
       \<lparr>s_playerId = 3, s_open = False, s_sent = []\<rparr>"
  using move_broadcast_to_all_open [OF demo_player_0 demo_valid_6_5, where now = 0 and rnd = demoRnd]
  by (simp add: demo_valid_6_5 demo_move_clients demo_clients) (simp add: demoServer_def)

section \<open>Damage to monsters\<close>

lemma filter_hitMonster:
  "filter (\<lambda>m. m_id m \<noteq> mid) (hitMonster mid d ms) = filter (\<lambda>m. m_id m \<noteq> mid) ms"
  by (induction ms) auto

lemma fireballHit_contract:
  assumes "map_of (players s) (s_playerId (clients s ! ws)) = Some p"
  shows "handleClientMessage now rnd ws (FireballHit mid) s = Some (damageContract now 15 mid s)"
  using assms
  by (auto simp: handleClientMessage_def damageContract_def Let_def filter_hitMonster
      split: option.splits)

lemma attack_contract:
  assumes "map_of (players s) (s_playerId (clients s ! ws)) = Some p"
  shows "handleClientMessage now rnd ws (Attack mid) s =
           Some (damageContract now (\<lfloor>rnd 0 * 5\<rfloor> + 8) mid s)"
  using assms
  by (auto simp: handleClientMessage_def damageContract_def Let_def filter_hitMonster
      split: option.splits)

lemma melee_damage_range:
  assumes "0 \<le> r" "r < 1"
  shows "8 \<le> \<lfloor>r * 5\<rfloor> + 8 \<and> \<lfloor>r * 5\<rfloor> + 8 \<le> (12::int)"
proof -
  from assms have "0 \<le> r * 5" "r * 5 < 5" by simp_all
  then have "0 \<le> \<lfloor>r * 5\<rfloor>" "\<lfloor>r * 5\<rfloor> < 5" by (simp_all add: floor_less_iff)
  then show ?thesis by simp
qed

lemma melee_damage_uniform:
  "\<lfloor>r * 5\<rfloor> + 8 = d \<longleftrightarrow> real_of_int (d - 8) / 5 \<le> r \<and> r < real_of_int (d - 7) / 5"
proof -
  have "\<lfloor>r * 5\<rfloor> + 8 = d \<longleftrightarrow> \<lfloor>r * 5\<rfloor> = d - 8" by auto
  also have "\<dots> \<longleftrightarrow> real_of_int (d - 8) \<le> r * 5 \<and> r * 5 < real_of_int (d - 8) + 1"
    by (rule floor_eq_iff)
  also have "\<dots> \<longleftrightarrow> real_of_int (d - 8) / 5 \<le> r \<and> r < real_of_int (d - 7) / 5"
    by (auto simp: field_simps)
  finally show ?thesis .
qed

lemma demo_find_monster:
  "find (\<lambda>m. m_id m = 7) (monsters demoServer) =
     Some \<lparr>m_id = 7, m_x = 5, m_y = 7, m_health = 50, m_maxHealth = 50, m_lastMove = 0\<rparr>"
  by (simp add: demoServer_def)

lemma demo_melee_damage: "\<lfloor>demoRnd 0 * 5\<rfloor> + 8 = 10"
  by (simp add: demoRnd_def)

text \<open>
  Claim C5. The handler of \<^verbatim>\<open>fireballHit\<close> and the handler of \<^verbatim>\<open>attack\<close> both
  meet the damage contract of the specification (the same no-op for an absent monster,
  the same subtraction, the same branching into damaged and died, the same broadcasts
  and the same respawn 5000 ms later), and they differ in the damage only: 15 for a
  fireball hit, and for a melee attack \<open>\<lfloor>r * 5\<rfloor> + 8\<close> where \<open>r\<close> is the draw of
  \<^verbatim>\<open>Math.random()\<close>. For \<open>0 \<le> r < 1\<close> that is an integer from 8 to 12, and each
  value \<open>d\<close> is drawn exactly for the draws in an interval of length one fifth,
  \<open>(d - 8) / 5 \<le> r < (d - 7) / 5\<close>.
\<close>

theorem fireballHit_same_contract_as_attack:
  assumes "map_of (players s) (s_playerId (clients s ! ws)) = Some p"
  shows "handleClientMessage now rnd ws (FireballHit mid) s = Some (damageContract now 15 mid s)
       \<and> handleClientMessage now rnd ws (Attack mid) s =
           Some (damageContract now (\<lfloor>rnd 0 * 5\<rfloor> + 8) mid s)
       \<and> (0 \<le> rnd 0 \<and> rnd 0 < 1 \<longrightarrow> 8 \<le> \<lfloor>rnd 0 * 5\<rfloor> + 8 \<and> \<lfloor>rnd 0 * 5\<rfloor> + 8 \<le> 12)
       \<and> (\<forall>d. \<lfloor>rnd 0 * 5\<rfloor> + 8 = d \<longleftrightarrow>
                real_of_int (d - 8) / 5 \<le> rnd 0 \<and> rnd 0 < real_of_int (d - 7) / 5)"
  using fireballHit_contract [OF assms] attack_contract [OF assms] melee_damage_range [of "rnd 0"]
    melee_damage_uniform [of "rnd 0"]
  by blast

theorem fireballHit_same_contract_as_attack_witness:
  "map_of (players demoServer) (s_playerId (clients demoServer ! 0)) =
     Some \<lparr>p_id = 1, p_x = 5, p_y = 5, p_health = 100, p_maxHealth = 100\<rparr>
   \<and> 0 \<le> demoRnd 0 \<and> demoRnd 0 < 1
   \<and> handleClientMessage 0 demoRnd 0 (FireballHit 7) demoServer =
       Some (damageContract 0 15 7 demoServer)
   \<and> handleClientMessage 0 demoRnd 0 (Attack 7) demoServer =
       Some (damageContract 0 10 7 demoServer)
   \<and> monsters (damageContract 0 15 7 demoServer) =
       [\<lparr>m_id = 7, m_x = 5, m_y = 7, m_health = 35, m_maxHealth = 50, m_lastMove = 0\<rparr>]
   \<and> monsters (damageContract 0 10 7 demoServer) =
       [\<lparr>m_id = 7, m_x = 5, m_y = 7, m_health = 40, m_maxHealth = 50, m_lastMove = 0\<rparr>]"
proof -
  have m: "monsters (damageContract 0 15 7 demoServer) =
       [\<lparr>m_id = 7, m_x = 5, m_y = 7, m_health = 35, m_maxHealth = 50, m_lastMove = 0\<rparr>]"
      "monsters (damageContract 0 10 7 demoServer) =
       [\<lparr>m_id = 7, m_x = 5, m_y = 7, m_health = 40, m_maxHealth = 50, m_lastMove = 0\<rparr>]"
    by (simp_all add: damageContract_def demo_find_monster) (simp_all add: demoServer_def)
  have r: "0 \<le> demoRnd 0 \<and> demoRnd 0 < 1" by (simp add: demoRnd_def)
  show ?thesis
    using fireballHit_same_contract_as_attack [OF demo_player_0,
        where now = 0 and rnd = demoRnd and mid = "7"] m r
    by (simp add: demo_player_0 demo_melee_damage)
qed




































section \<open>The spawn position of a new player\<close>

lemma spawn_sample_range:
  assumes "0 \<le> r" "r < 1"
  shows "2 \<le> \<lfloor>r * 16\<rfloor> + 2 \<and> \<lfloor>r * 16\<rfloor> + 2 \<le> (17::int)"
    and "2 \<le> \<lfloor>r * 11\<rfloor> + 2 \<and> \<lfloor>r * 11\<rfloor> + 2 \<le> (12::int)"
proof -
  from assms have "0 \<le> r * 16" "r * 16 < 16" "0 \<le> r * 11" "r * 11 < 11" by simp_all
  then have "0 \<le> \<lfloor>r * 16\<rfloor>" "\<lfloor>r * 16\<rfloor> < 16" "0 \<le> \<lfloor>r * 11\<rfloor>" "\<lfloor>r * 11\<rfloor> < 11"
    by (simp_all add: floor_less_iff)
  then show "2 \<le> \<lfloor>r * 16\<rfloor> + 2 \<and> \<lfloor>r * 16\<rfloor> + 2 \<le> (17::int)"
    and "2 \<le> \<lfloor>r * 11\<rfloor> + 2 \<and> \<lfloor>r * 11\<rfloor> + 2 \<le> (12::int)" by simp_all
qed

declare findSpawnLoop.simps [simp del]

lemma findSpawnLoop_unfold:
  "findSpawnLoop m rnd a =
     (case tile_walkable m (\<lfloor>rnd (2 * a) * 16\<rfloor> + 2) (\<lfloor>rnd (2 * a + 1) * 11\<rfloor> + 2) of
        None \<Rightarrow> None
      | Some w \<Rightarrow>
          if \<not> w \<and> a + 1 < 100 then findSpawnLoop m rnd (a + 1)
          else Some (\<lfloor>rnd (2 * a) * 16\<rfloor> + 2, \<lfloor>rnd (2 * a + 1) * 11\<rfloor> + 2, a + 1))"
  by (subst findSpawnLoop.simps) (simp add: Let_def config_defs split: option.splits)

lemma spawn_sample_tile:
  assumes wf: "wf_map m" and rnd: "\<forall>k. 0 \<le> rnd k \<and> rnd k < 1"
  shows "\<exists>w. tile_walkable m (\<lfloor>rnd i * 16\<rfloor> + 2) (\<lfloor>rnd j * 11\<rfloor> + 2) = Some w"
proof -
  from rnd have "0 \<le> rnd i" "rnd i < 1" "0 \<le> rnd j" "rnd j < 1" by simp_all
  from spawn_sample_range(1) [OF this(1,2)] spawn_sample_range(2) [OF this(3,4)]
  show ?thesis by (simp add: tile_walkable_wf [OF wf] config_defs)
qed

lemma findSpawnLoop_result:
  assumes wf: "wf_map m" and rnd: "\<forall>k. 0 \<le> rnd k \<and> rnd k < 1"
  shows "a < 100 \<Longrightarrow>
         \<exists>x y n. findSpawnLoop m rnd a = Some (x, y, n) \<and> a < n \<and> n \<le> 100
           \<and> x = \<lfloor>rnd (2 * (n - 1)) * 16\<rfloor> + 2 \<and> y = \<lfloor>rnd (2 * (n - 1) + 1) * 11\<rfloor> + 2
           \<and> (\<forall>k. a \<le> k \<and> k < n - 1 \<longrightarrow>
                  tile_walkable m (\<lfloor>rnd (2 * k) * 16\<rfloor> + 2) (\<lfloor>rnd (2 * k + 1) * 11\<rfloor> + 2) =
                    Some False)
           \<and> (tile_walkable m x y = Some True \<or> n = 100)"
proof (induction "99 - a" arbitrary: a)
  case 0
  then have a: "a + 1 = 100" by simp
  from spawn_sample_tile [OF wf rnd, of "2 * a" "2 * a + 1"] obtain w where
    w: "tile_walkable m (\<lfloor>rnd (2 * a) * 16\<rfloor> + 2) (\<lfloor>rnd (2 * a + 1) * 11\<rfloor> + 2) = Some w"
    by blast
  have "findSpawnLoop m rnd a =
          Some (\<lfloor>rnd (2 * a) * 16\<rfloor> + 2, \<lfloor>rnd (2 * a + 1) * 11\<rfloor> + 2, a + 1)"
    by (subst findSpawnLoop_unfold) (simp only: w a option.case, simp)
  with a show ?case
    by (intro exI [of _ "a + 1"] exI [of _ "\<lfloor>rnd (2 * a + 1) * 11\<rfloor> + 2", THEN exI [of _ "\<lfloor>rnd (2 * a) * 16\<rfloor> + 2"]]) auto
next
  case (Suc d)
  then have a: "a < 99" by simp
  from spawn_sample_tile [OF wf rnd, of "2 * a" "2 * a + 1"] obtain w where
    w: "tile_walkable m (\<lfloor>rnd (2 * a) * 16\<rfloor> + 2) (\<lfloor>rnd (2 * a + 1) * 11\<rfloor> + 2) = Some w"
    by blast
  show ?case
  proof (cases w)
    case True
    with w a have "findSpawnLoop m rnd a =
          Some (\<lfloor>rnd (2 * a) * 16\<rfloor> + 2, \<lfloor>rnd (2 * a + 1) * 11\<rfloor> + 2, a + 1)"
      by (subst findSpawnLoop_unfold) simp
    with w True a show ?thesis
      by (intro exI [of _ "a + 1"] exI [of _ "\<lfloor>rnd (2 * a + 1) * 11\<rfloor> + 2", THEN exI [of _ "\<lfloor>rnd (2 * a) * 16\<rfloor> + 2"]]) auto
  next
    case False
    with w a have rec: "findSpawnLoop m rnd a = findSpawnLoop m rnd (a + 1)"
      by (subst findSpawnLoop_unfold) simp
    from Suc.hyps(2) a have "d = 99 - (a + 1)" "a + 1 < 100" by simp_all
    from Suc.hyps(1) [OF this] obtain x y n where
      r: "findSpawnLoop m rnd (a + 1) = Some (x, y, n)" "a + 1 < n" "n \<le> 100"
        "x = \<lfloor>rnd (2 * (n - 1)) * 16\<rfloor> + 2" "y = \<lfloor>rnd (2 * (n - 1) + 1) * 11\<rfloor> + 2"
        "\<forall>k. a + 1 \<le> k \<and> k < n - 1 \<longrightarrow>
                  tile_walkable m (\<lfloor>rnd (2 * k) * 16\<rfloor> + 2) (\<lfloor>rnd (2 * k + 1) * 11\<rfloor> + 2) =
                    Some False"
        "tile_walkable m x y = Some True \<or> n = 100"
      by blast
    have "\<forall>k. a \<le> k \<and> k < n - 1 \<longrightarrow>
                  tile_walkable m (\<lfloor>rnd (2 * k) * 16\<rfloor> + 2) (\<lfloor>rnd (2 * k + 1) * 11\<rfloor> + 2) =
                    Some False"
    proof (intro allI impI)
      fix k assume k: "a \<le> k \<and> k < n - 1"
      show "tile_walkable m (\<lfloor>rnd (2 * k) * 16\<rfloor> + 2) (\<lfloor>rnd (2 * k + 1) * 11\<rfloor> + 2) = Some False"
      proof (cases "k = a")
        case True
        with w False show ?thesis by simp
      next
        case False
        with k have "a + 1 \<le> k \<and> k < n - 1" by simp
        with r(6) show ?thesis by blast
      qed
    qed
    with rec r show ?thesis by (intro exI [of _ n] exI [of _ y, THEN exI [of _ x]]) simp
  qed
qed
lemma demo_wf: "wf_map demoMap"
  by (simp add: demoMap_def generateMap_wf)

lemma demo_tile_2_2: "tile_walkable demoMap 2 2 = Some False"
  by (simp add: tile_walkable_def demo_defs config_defs)

lemma demo_tile_10_7: "tile_walkable demoMap 10 7 = Some True"
  by (simp add: tile_walkable_def demo_defs config_defs)

lemma demo_rnd_range: "\<forall>k. 0 \<le> demoRnd k \<and> demoRnd k < 1"
  by (simp add: demoRnd_def)

lemma demo_spawn_first: "findSpawnLoop demoMap demoRnd 0 = Some (10, 7, 1)"
proof -
  have "\<lfloor>demoRnd 0 * 16\<rfloor> + 2 = 10" "\<lfloor>demoRnd (2 * 0 + 1) * 11\<rfloor> + 2 = 7"
    by (simp_all add: demoRnd_def)
  then show ?thesis
    by (subst findSpawnLoop_unfold) (simp add: demo_tile_10_7)
qed

lemma demo_spawn_fallback: "findSpawnLoop demoMap (\<lambda>k. 0) 0 = Some (2, 2, 100)"
proof -
  have "\<forall>k::nat. (0::real) \<le> 0 \<and> (0::real) < 1" by simp
  from findSpawnLoop_result [where rnd = "\<lambda>k. 0" and a = 0, OF demo_wf this zero_less_numeral]
  obtain x y n where
    all: "findSpawnLoop demoMap (\<lambda>k. 0) 0 = Some (x, y, n) \<and> 0 < n \<and> n \<le> 100
           \<and> x = \<lfloor>(0::real) * 16\<rfloor> + 2 \<and> y = \<lfloor>(0::real) * 11\<rfloor> + 2
           \<and> (\<forall>k. 0 \<le> k \<and> k < n - 1 \<longrightarrow>
                  tile_walkable demoMap (\<lfloor>(0::real) * 16\<rfloor> + 2) (\<lfloor>(0::real) * 11\<rfloor> + 2) =
                    Some False)
           \<and> (tile_walkable demoMap x y = Some True \<or> n = 100)"
    by (elim exE) (rule that)
  then have xy: "x = 2" "y = 2" by simp_all
  with all demo_tile_2_2 have "n = 100" by simp
  with all xy show ?thesis by simp
qed

text \<open>
  Claim C9. On a map of the generated shape and with draws in \<open>[0, 1)\<close>, every
  position that \<^verbatim>\<open>findSpawnPosition()\<close> samples has \<open>2 \<le> x \<le> 17\<close> and
  \<open>2 \<le> y \<le> 12\<close>, and the search returns: after \<open>n\<close> tries with \<open>1 \<le> n \<le> 100\<close> it
  returns the position of its \<open>n\<close>-th try, no earlier try having sampled a walkable
  tile, and either the returned tile is walkable or \<open>n = 100\<close>.
\<close>

theorem findSpawnPosition_bounded_search:
  assumes wf: "wf_map m" and rnd: "\<forall>k. 0 \<le> rnd k \<and> rnd k < 1"
  shows "(\<forall>k. 2 \<le> \<lfloor>rnd k * 16\<rfloor> + 2 \<and> \<lfloor>rnd k * 16\<rfloor> + 2 \<le> 17
              \<and> 2 \<le> \<lfloor>rnd k * 11\<rfloor> + 2 \<and> \<lfloor>rnd k * 11\<rfloor> + 2 \<le> 12)
       \<and> (\<exists>x y n. findSpawnLoop m rnd 0 = Some (x, y, n)
             \<and> findSpawnPosition m rnd = Some (x, y)
             \<and> 1 \<le> n \<and> n \<le> 100
             \<and> x = \<lfloor>rnd (2 * (n - 1)) * 16\<rfloor> + 2 \<and> y = \<lfloor>rnd (2 * (n - 1) + 1) * 11\<rfloor> + 2
             \<and> 2 \<le> x \<and> x \<le> 17 \<and> 2 \<le> y \<and> y \<le> 12
             \<and> (\<forall>k<n - 1.
                    tile_walkable m (\<lfloor>rnd (2 * k) * 16\<rfloor> + 2) (\<lfloor>rnd (2 * k + 1) * 11\<rfloor> + 2) =
                      Some False)
             \<and> (tile_walkable m x y = Some True \<or> n = 100))"
proof -
  have range: "2 \<le> \<lfloor>rnd i * 16\<rfloor> + 2 \<and> \<lfloor>rnd i * 16\<rfloor> + 2 \<le> 17
               \<and> 2 \<le> \<lfloor>rnd i * 11\<rfloor> + 2 \<and> \<lfloor>rnd i * 11\<rfloor> + 2 \<le> 12" for i
  proof -
    from rnd have "0 \<le> rnd i" "rnd i < 1" by simp_all
    from spawn_sample_range(1) [OF this] spawn_sample_range(2) [OF this] show ?thesis
      by (rule conjI [THEN conj_assoc [THEN iffD1]])
  qed
  have "(0::nat) < 100" by simp
  from findSpawnLoop_result [OF wf rnd this] obtain x y n where
    all: "findSpawnLoop m rnd 0 = Some (x, y, n) \<and> 0 < n \<and> n \<le> 100
           \<and> x = \<lfloor>rnd (2 * (n - 1)) * 16\<rfloor> + 2 \<and> y = \<lfloor>rnd (2 * (n - 1) + 1) * 11\<rfloor> + 2
           \<and> (\<forall>k. 0 \<le> k \<and> k < n - 1 \<longrightarrow>
                  tile_walkable m (\<lfloor>rnd (2 * k) * 16\<rfloor> + 2) (\<lfloor>rnd (2 * k + 1) * 11\<rfloor> + 2) =
                    Some False)
           \<and> (tile_walkable m x y = Some True \<or> n = 100)"
    by (elim exE) (rule that)
  from all have r: "findSpawnLoop m rnd 0 = Some (x, y, n)" by (elim conjE)
  from all have n0: "0 < n" by (elim conjE)
  from all have n: "n \<le> 100" by (elim conjE)
  from all have x: "x = \<lfloor>rnd (2 * (n - 1)) * 16\<rfloor> + 2" by (elim conjE)
  from all have y: "y = \<lfloor>rnd (2 * (n - 1) + 1) * 11\<rfloor> + 2" by (elim conjE)
  from all have earlier: "\<forall>k. 0 \<le> k \<and> k < n - 1 \<longrightarrow>
          tile_walkable m (\<lfloor>rnd (2 * k) * 16\<rfloor> + 2) (\<lfloor>rnd (2 * k + 1) * 11\<rfloor> + 2) = Some False"
    by (elim conjE)
  from all have last: "tile_walkable m x y = Some True \<or> n = 100" by (elim conjE)
  from r have p: "findSpawnPosition m rnd = Some (x, y)" by (simp add: findSpawnPosition_def)
  from range [of "2 * (n - 1)"] have xr: "2 \<le> x" "x \<le> 17" unfolding x by simp_all
  from range [of "2 * (n - 1) + 1"] have yr: "2 \<le> y" "y \<le> 12" unfolding y by simp_all
  from n0 have n1: "1 \<le> n" by simp
  from earlier have e: "\<forall>k<n - 1.
      tile_walkable m (\<lfloor>rnd (2 * k) * 16\<rfloor> + 2) (\<lfloor>rnd (2 * k + 1) * 11\<rfloor> + 2) = Some False"
    by simp
  from r p n1 n x y xr yr e last
  have "\<exists>x y n. findSpawnLoop m rnd 0 = Some (x, y, n)
             \<and> findSpawnPosition m rnd = Some (x, y)
             \<and> 1 \<le> n \<and> n \<le> 100
             \<and> x = \<lfloor>rnd (2 * (n - 1)) * 16\<rfloor> + 2 \<and> y = \<lfloor>rnd (2 * (n - 1) + 1) * 11\<rfloor> + 2
             \<and> 2 \<le> x \<and> x \<le> 17 \<and> 2 \<le> y \<and> y \<le> 12
             \<and> (\<forall>k<n - 1.
                    tile_walkable m (\<lfloor>rnd (2 * k) * 16\<rfloor> + 2) (\<lfloor>rnd (2 * k + 1) * 11\<rfloor> + 2) =
                      Some False)
             \<and> (tile_walkable m x y = Some True \<or> n = 100)"
    by (intro exI [of _ n] exI [of _ y, THEN exI [of _ x]] conjI)
  moreover from range
  have "\<forall>k. 2 \<le> \<lfloor>rnd k * 16\<rfloor> + 2 \<and> \<lfloor>rnd k * 16\<rfloor> + 2 \<le> 17
              \<and> 2 \<le> \<lfloor>rnd k * 11\<rfloor> + 2 \<and> \<lfloor>rnd k * 11\<rfloor> + 2 \<le> 12" ..
  ultimately show ?thesis by (intro conjI)
qed

theorem findSpawnPosition_bounded_search_witness:
  "wf_map demoMap
   \<and> (\<forall>k. 0 \<le> demoRnd k \<and> demoRnd k < 1)
   \<and> findSpawnLoop demoMap demoRnd 0 = Some (10, 7, 1)
   \<and> findSpawnPosition demoMap demoRnd = Some (10, 7)
   \<and> tile_walkable demoMap 10 7 = Some True
   \<and> wf_map demoMap \<and> (\<forall>k::nat. (0::real) \<le> 0 \<and> (0::real) < 1)
   \<and> findSpawnLoop demoMap (\<lambda>k. 0) 0 = Some (2, 2, 100)
   \<and> findSpawnPosition demoMap (\<lambda>k. 0) = Some (2, 2)
   \<and> tile_walkable demoMap 2 2 = Some False"
proof -
  have z: "\<forall>k::nat. (0::real) \<le> 0 \<and> (0::real) < 1" by simp
  from findSpawnPosition_bounded_search [where rnd = "\<lambda>k. 0", OF demo_wf z]
  have "\<exists>x y n. findSpawnPosition demoMap (\<lambda>k. 0) = Some (x, y)
           \<and> x = \<lfloor>(0::real) * 16\<rfloor> + 2 \<and> y = \<lfloor>(0::real) * 11\<rfloor> + 2"
    by (elim conjE exE) (intro exI conjI, assumption+)
  then have "findSpawnPosition demoMap (\<lambda>k. 0) = Some (2, 2)" by auto
  moreover have "findSpawnPosition demoMap demoRnd = Some (10, 7)"
    by (simp add: findSpawnPosition_def demo_spawn_first)
  ultimately show ?thesis
    using demo_wf demo_rnd_range demo_spawn_first demo_spawn_fallback demo_tile_10_7
      demo_tile_2_2
    by simp
qed

section \<open>The game loop on the example states\<close>

lemma demo_tile_10_8: "tile_walkable demoMap 10 8 = Some True"
  by (simp add: tile_walkable_def demo_defs config_defs)

lemma demo_valid_10_8: "isValidMove demoMap 10 8 = Some True"
  by (simp add: isValidMove_iff demo_tile_10_8)

lemma demo_adjacent_scan:
  "nearestPlayerScan \<lparr>m_id = 7, m_x = 10, m_y = 9, m_health = 50, m_maxHealth = 50, m_lastMove = 0\<rparr>
     (players demoServer) (None, None) =
   (Some (2, \<lparr>p_id = 2, p_x = 10, p_y = 8, p_health = 5, p_maxHealth = 100\<rparr>), Some 1)"
  by (simp add: demoServer_def)

lemma demo_adjacent_tick:
  "monsterTick 1000 attackRnd demoMap
     \<lparr>m_id = 7, m_x = 10, m_y = 9, m_health = 50, m_maxHealth = 50, m_lastMove = 0\<rparr>
     (0, players demoServer, clients demoServer) =
   Some (\<lparr>m_id = 7, m_x = 10, m_y = 8, m_health = 50, m_maxHealth = 50, m_lastMove = 1000\<rparr>,
         2,
         [(1, \<lparr>p_id = 1, p_x = 5, p_y = 5, p_health = 100, p_maxHealth = 100\<rparr>),
          (2, \<lparr>p_id = 2, p_x = 10, p_y = 8, p_health = -5, p_maxHealth = 100\<rparr>)],
         [\<lparr>s_playerId = 1, s_open = True,
            s_sent = [MonsterMoved 7 10 8, PlayerDamaged 2 (-5) 10, PlayerDied 2]\<rparr>,
          \<lparr>s_playerId = 2, s_open = True,
            s_sent = [MonsterMoved 7 10 8, PlayerDamaged 2 (-5) 10, PlayerDied 2]\<rparr>,
          \<lparr>s_playerId = 3, s_open = False, s_sent = []\<rparr>])"
  unfolding monsterTick_def
  by (simp add: demo_adjacent_scan stepDirection_def demo_valid_10_8 attackRnd_def Let_def
      demo_clients broadcast_def send_def)
    (simp add: demoServer_def)

lemma demo_adjacent_gameLoop:
  "gameLoop 1000 attackRnd demoAdjacent =
   Some (demoAdjacent
     \<lparr>monsters := [\<lparr>m_id = 7, m_x = 10, m_y = 8, m_health = 50, m_maxHealth = 50,
                     m_lastMove = 1000\<rparr>],
      players := [(1, \<lparr>p_id = 1, p_x = 5, p_y = 5, p_health = 100, p_maxHealth = 100\<rparr>),
                  (2, \<lparr>p_id = 2, p_x = 10, p_y = 8, p_health = -5, p_maxHealth = 100\<rparr>)],
      clients := [\<lparr>s_playerId = 1, s_open = True,
                    s_sent = [MonsterMoved 7 10 8, PlayerDamaged 2 (-5) 10, PlayerDied 2]\<rparr>,
                  \<lparr>s_playerId = 2, s_open = True,
                    s_sent = [MonsterMoved 7 10 8, PlayerDamaged 2 (-5) 10, PlayerDied 2]\<rparr>,
                  \<lparr>s_playerId = 3, s_open = False, s_sent = []\<rparr>]\<rparr>)"
proof -
  have "gmap demoAdjacent = demoMap" "players demoAdjacent = players demoServer"
    "clients demoAdjacent = clients demoServer"
    "monsters demoAdjacent =
       [\<lparr>m_id = 7, m_x = 10, m_y = 9, m_health = 50, m_maxHealth = 50, m_lastMove = 0\<rparr>]"
    by (simp_all add: demoAdjacent_def demoServer_def)
  then show ?thesis
    by (simp add: gameLoop_def demo_adjacent_tick)
qed

text \<open>
  Claim C7 says that the damage of a monster's attack never takes a player's stored
  health, or the health in the \<^verbatim>\<open>playerDamaged\<close> message, below 0. The game loop
  subtracts the damage and stores and sends the difference as it is: in the example
  state a tick at time 1000, with the draws 0.1 and 0.9, takes player 2 from health 5
  to health \<open>-5\<close> and sends \<open>-5\<close>. The \<^verbatim>\<open>takeDamage\<close> of the single-player client,
  for the same health and damage, stores 0.
\<close>

theorem monster_attack_makes_player_health_negative:
  "map_of (players demoAdjacent) 2 =
     Some \<lparr>p_id = 2, p_x = 10, p_y = 8, p_health = 5, p_maxHealth = 100\<rparr>
   \<and> (\<exists>t. gameLoop 1000 attackRnd demoAdjacent = Some t
          \<and> map_of (players t) 2 =
              Some \<lparr>p_id = 2, p_x = 10, p_y = 8, p_health = -5, p_maxHealth = 100\<rparr>
          \<and> s_sent (clients t ! 1) = [MonsterMoved 7 10 8, PlayerDamaged 2 (-5) 10, PlayerDied 2])
   \<and> e_health (fst (takeDamage \<lparr>e_x = 10, e_y = 8, e_health = 5, e_maxHealth = 100\<rparr> 10)) = 0"
proof -
  have "map_of (players demoAdjacent) 2 =
     Some \<lparr>p_id = 2, p_x = 10, p_y = 8, p_health = 5, p_maxHealth = 100\<rparr>"
    by (simp add: demoAdjacent_def demoServer_def)
  moreover have "e_health (fst (takeDamage \<lparr>e_x = 10, e_y = 8, e_health = 5, e_maxHealth = 100\<rparr> 10)) = 0"
    by (simp add: takeDamage_def)
  ultimately show ?thesis
    by (simp add: demo_adjacent_gameLoop)
qed
lemma demo_tile_6_6: "tile_walkable demoMap 6 6 = Some False"
  by (simp add: tile_walkable_def demo_defs config_defs)

lemma demo_valid_6_6: "isValidMove demoMap 6 6 = Some False"
  by (simp add: isValidMove_def demo_tile_6_6 config_defs)

lemma demo_map_valid_6_5: "isValidMove demoMap 6 5 = Some True"
  by (simp add: isValidMove_iff demo_tile_6_5)

lemma sqrt_8_far: "\<not> sqrt 8 * 2 \<le> 3"
proof
  assume "sqrt 8 * 2 \<le> 3"
  then have "sqrt 8 \<le> 3 / 2" by simp
  then have "8 \<le> (3 / 2 :: real)\<^sup>2" by (rule sqrt_le_D)
  then show False by (simp add: power2_eq_square)
qed

lemma demo_diagonal_scan:
  "nearestPlayerScan \<lparr>m_id = 7, m_x = 5, m_y = 5, m_health = 50, m_maxHealth = 50, m_lastMove = 0\<rparr>
     (players demoDiagonal) (None, None) =
   (Some (1, \<lparr>p_id = 1, p_x = 7, p_y = 7, p_health = 100, p_maxHealth = 100\<rparr>), Some (sqrt 8))"
  by (simp add: demoDiagonal_def demoServer_def)

lemma demo_diagonal_tick:
  "monsterTick 1000 demoRnd demoMap
     \<lparr>m_id = 7, m_x = 5, m_y = 5, m_health = 50, m_maxHealth = 50, m_lastMove = 0\<rparr>
     (0, players demoDiagonal, clients demoDiagonal) =
   Some (\<lparr>m_id = 7, m_x = 5, m_y = 5, m_health = 50, m_maxHealth = 50, m_lastMove = 1000\<rparr>,
         0, players demoDiagonal, clients demoDiagonal)"
  unfolding monsterTick_def
  by (simp add: demo_diagonal_scan stepDirection_def demo_valid_6_6 Let_def sqrt_8_far)

lemma demo_diagonal_gameLoop:
  "gameLoop 1000 demoRnd demoDiagonal =
   Some (demoDiagonal
     \<lparr>monsters := [\<lparr>m_id = 7, m_x = 5, m_y = 5, m_health = 50, m_maxHealth = 50,
                     m_lastMove = 1000\<rparr>]\<rparr>)"
proof -
  have "gmap demoDiagonal = demoMap"
    "monsters demoDiagonal =
       [\<lparr>m_id = 7, m_x = 5, m_y = 5, m_health = 50, m_maxHealth = 50, m_lastMove = 0\<rparr>]"
    by (simp_all add: demoDiagonal_def demoServer_def)
  then show ?thesis
    by (simp add: gameLoop_def demo_diagonal_tick)
qed

lemma demo_client_move:
  "moveTowardsPlayer demoMap \<lparr>e_x = 7, e_y = 7, e_health = 100, e_maxHealth = 100\<rparr>
     \<lparr>e_x = 5, e_y = 5, e_health = 50, e_maxHealth = 50\<rparr> =
   Some \<lparr>e_x = 6, e_y = 5, e_health = 50, e_maxHealth = 50\<rparr>"
proof -
  have "canMoveTo demoMap 6 6 = Some False" "canMoveTo demoMap 6 5 = Some True"
    by (simp_all add: canMoveTo_def config_defs demo_tile_6_6 demo_tile_6_5)
  then show ?thesis
    by (simp add: moveTowardsPlayer_def moveTo_def stepDirection_def Let_def)
qed
lemma monsterTick_position:
  assumes "monsterTick now rnd m mon acc = Some (mon', acc')"
  shows "(m_x mon' = m_x mon \<and> m_y mon' = m_y mon)
       \<or> isValidMove m (m_x mon') (m_y mon') = Some True"
  using assms
  by (auto simp: monsterTick_def Let_def split: prod.splits option.splits if_splits)

lemma moveTowardsPlayer_fallback:
  assumes "moveTowardsPlayer m player this = Some this'"
  shows "(e_x this', e_y this') =
     (let moveX = fst (stepDirection (e_x player - e_x this) (e_y player - e_y this));
          moveY = snd (stepDirection (e_x player - e_x this) (e_y player - e_y this))
      in if canMoveTo m (e_x this + moveX) (e_y this + moveY) = Some True
         then (e_x this + moveX, e_y this + moveY)
         else if moveX \<noteq> 0 \<and> canMoveTo m (e_x this + moveX) (e_y this) = Some True
         then (e_x this + moveX, e_y this)
         else if moveX \<noteq> 0 \<and> canMoveTo m (e_x this) (e_y this + moveY) = Some True
         then (e_x this, e_y this + moveY)
         else (e_x this, e_y this))"
  using assms
  by (auto simp: moveTowardsPlayer_def moveTo_def Let_def
      split: option.splits bool.splits if_splits prod.splits)

text \<open>
  Claim C4 describes the greedy step with its fallbacks: the diagonal step first, then
  the horizontal one, then the vertical one. \<^verbatim>\<open>moveTowardsPlayer()\<close> of the
  single-player client does that. The game loop of the server tries the first candidate
  only: in the example state, player 1 is at \<open>(7, 7)\<close> and the monster at \<open>(5, 5)\<close>, the
  diagonal neighbour \<open>(6, 6)\<close> is not walkable and the horizontal neighbour \<open>(6, 5)\<close> is.
  After a tick at time 1000 the monster of the server is still at \<open>(5, 5)\<close>, and nothing
  is sent; the client's monster, on the same map and positions, moves to \<open>(6, 5)\<close>.
\<close>

theorem server_monster_step_has_no_fallback:
  "isValidMove demoMap 6 6 = Some False
   \<and> isValidMove demoMap 6 5 = Some True
   \<and> gameLoop 1000 demoRnd demoDiagonal =
       Some (demoDiagonal
         \<lparr>monsters := [\<lparr>m_id = 7, m_x = 5, m_y = 5, m_health = 50, m_maxHealth = 50,
                         m_lastMove = 1000\<rparr>]\<rparr>)
   \<and> moveTowardsPlayer demoMap \<lparr>e_x = 7, e_y = 7, e_health = 100, e_maxHealth = 100\<rparr>
         \<lparr>e_x = 5, e_y = 5, e_health = 50, e_maxHealth = 50\<rparr> =
       Some \<lparr>e_x = 6, e_y = 5, e_health = 50, e_maxHealth = 50\<rparr>"
  by (simp add: demo_valid_6_6 demo_map_valid_6_5 demo_diagonal_gameLoop demo_client_move)

section \<open>Fireballs on the server\<close>

lemma onMessage_Fireball:
  assumes "map_of (players s) (s_playerId (clients s ! ws)) = Some p"
  shows "onMessage now rnd ws (Fireball tx ty) s =
           s\<lparr>fireballs := fireballs s @
                  [\<lparr>f_id = real_of_int now + rnd 0, f_playerId = s_playerId (clients s ! ws),
                    f_startX = p_x p, f_startY = p_y p, f_targetX = tx, f_targetY = ty,
                    f_timestamp = now\<rparr>],
             clients := broadcast (FireballCast
                  \<lparr>f_id = real_of_int now + rnd 0, f_playerId = s_playerId (clients s ! ws),
                    f_startX = p_x p, f_startY = p_y p, f_targetX = tx, f_targetY = ty,
                    f_timestamp = now\<rparr>) None (clients s)\<rparr>"
  using assms by (simp add: onMessage_def handleClientMessage_def Let_def)

lemma handleClientMessage_fireballs_frame:
  "handleClientMessage now rnd ws message (s\<lparr>fireballs := fs\<rparr>) =
     map_option (\<lambda>t. t\<lparr>fireballs := fs @ drop (length (fireballs s)) (fireballs t)\<rparr>)
       (handleClientMessage now rnd ws message s)"
  by (cases message)
    (auto simp: handleClientMessage_def Let_def split: option.splits bool.splits)

lemma onMessage_fireballs_frame:
  "onMessage now rnd ws message (s\<lparr>fireballs := fs\<rparr>) =
     (onMessage now rnd ws message s)
       \<lparr>fireballs := fs @ drop (length (fireballs s)) (fireballs (onMessage now rnd ws message s))\<rparr>"
  unfolding onMessage_def handleClientMessage_fireballs_frame
  by (cases "handleClientMessage now rnd ws message s") simp_all

lemma onConnection_fireballs_frame:
  "onConnection rnd (s\<lparr>fireballs := fs\<rparr>) =
     map_option (\<lambda>t. t\<lparr>fireballs := fs @ drop (length (fireballs s)) (fireballs t)\<rparr>)
       (onConnection rnd s)"
  by (auto simp: onConnection_def Let_def split: option.splits prod.splits)

lemma onClose_fireballs_frame:
  "onClose ws (s\<lparr>fireballs := fs\<rparr>) =
     (onClose ws s)\<lparr>fireballs := fs @ drop (length (fireballs s)) (fireballs (onClose ws s))\<rparr>"
  by (simp add: onClose_def Let_def)

lemma gameLoop_fireballs_frame:
  "gameLoop now rnd (s\<lparr>fireballs := fs\<rparr>) =
     map_option (\<lambda>t. t\<lparr>fireballs := fs @ drop (length (fireballs s)) (fireballs t)\<rparr>)
       (gameLoop now rnd s)"
  by (auto simp: gameLoop_def split: option.splits prod.splits)

lemma fireTimer_fireballs_frame:
  "fireTimer now rnd (s\<lparr>fireballs := fs\<rparr>) =
     map_option (\<lambda>t. t\<lparr>fireballs := fs @ drop (length (fireballs s)) (fireballs t)\<rparr>)
       (fireTimer now rnd s)"
  by (auto simp: fireTimer_def respawn_def spawnMonster_def Let_def
      split: list.splits option.splits prod.splits)

lemma step_fireballs_frame:
  "step now rnd e (s\<lparr>fireballs := fs\<rparr>) =
     map_option (\<lambda>t. t\<lparr>fireballs := fs @ drop (length (fireballs s)) (fireballs t)\<rparr>)
       (step now rnd e s)"
  by (cases e)
    (simp_all add: onConnection_fireballs_frame onMessage_fireballs_frame [symmetric]
      onClose_fireballs_frame [symmetric] gameLoop_fireballs_frame fireTimer_fireballs_frame)

lemma handleClientMessage_fireballs_append:
  "handleClientMessage now rnd ws message s = Some t \<Longrightarrow>
   fireballs t = fireballs s \<or>
   (\<exists>tx ty fb. message = Fireball tx ty \<and> fireballs t = fireballs s @ [fb])"
  by (cases message)
    (auto simp: handleClientMessage_def Let_def split: option.splits bool.splits if_splits)

lemma step_fireballs_append:
  assumes "step now rnd e s = Some t"
  shows "fireballs t = fireballs s \<or>
         (\<exists>ws tx ty fb. e = Message ws (Fireball tx ty) \<and> fireballs t = fireballs s @ [fb])"
proof (cases e)
  case Connect
  with assms show ?thesis
    by (auto simp: onConnection_def Let_def split: option.splits prod.splits)
next
  case (Message ws message)
  show ?thesis
  proof (cases "handleClientMessage now rnd ws message s")
    case None
    with assms Message show ?thesis by (simp add: onMessage_def)
  next
    case (Some t')
    with assms Message have "t' = t" by (simp add: onMessage_def)
    with handleClientMessage_fireballs_append [OF Some] Message show ?thesis by auto
  qed
next
  case (Close ws)
  with assms show ?thesis by (auto simp: onClose_def Let_def)
next
  case Tick
  with assms show ?thesis by (auto simp: gameLoop_def split: option.splits prod.splits)
next
  case Timer
  with assms show ?thesis
    by (auto simp: fireTimer_def respawn_def spawnMonster_def Let_def
        split: list.splits option.splits prod.splits if_splits)
qed
lemma demo_fireball:
  "onMessage 1000 (\<lambda>k. 0) 0 (Fireball 100 200) demoServer =
     demoServer\<lparr>fireballs :=
                   [\<lparr>f_id = 1000, f_playerId = 1, f_startX = 5, f_startY = 5, f_targetX = 100,
                     f_targetY = 200, f_timestamp = 1000\<rparr>],
                 clients :=
                   [\<lparr>s_playerId = 1, s_open = True,
                      s_sent = [FireballCast \<lparr>f_id = 1000, f_playerId = 1, f_startX = 5,
                                  f_startY = 5, f_targetX = 100, f_targetY = 200,
                                  f_timestamp = 1000\<rparr>]\<rparr>,
                    \<lparr>s_playerId = 2, s_open = True,
                      s_sent = [FireballCast \<lparr>f_id = 1000, f_playerId = 1, f_startX = 5,
                                  f_startY = 5, f_targetX = 100, f_targetY = 200,
                                  f_timestamp = 1000\<rparr>]\<rparr>,
                    \<lparr>s_playerId = 3, s_open = False, s_sent = []\<rparr>]\<rparr>"
  by (simp add: onMessage_Fireball [OF demo_player_0] demo_clients broadcast_def send_def)
    (simp add: demoServer_def)

text \<open>
  Claim C8 says that the server keeps no fireball beyond the broadcast of its spawn. The
  handler appends the fireball to \<^verbatim>\<open>gameState.fireballs\<close>: in the example state,
  which holds no fireball, player 1 casts one at time 1000 and the state holds it
  afterwards.
\<close>

theorem fireball_is_kept_in_state:
  "fireballs demoServer = []
   \<and> fireballs (onMessage 1000 (\<lambda>k. 0) 0 (Fireball 100 200) demoServer) =
       [\<lparr>f_id = 1000, f_playerId = 1, f_startX = 5, f_startY = 5, f_targetX = 100,
         f_targetY = 200, f_timestamp = 1000\<rparr>]"
  by (simp add: demo_fireball) (simp add: demoServer_def)

text \<open>
  Claim C8, amended. The handler of a \<^verbatim>\<open>fireball\<close> message sends the
  \<^verbatim>\<open>fireballCast\<close> message to every open connection, the caster's included, and
  appends the fireball to the list of fireballs of the state, where it stays: every
  event leaves the fireballs that are in the list as they are, in their order (only
  another \<^verbatim>\<open>fireball\<close> message adds one at the end), and no event reads the list: with
  another list in its place, every event does the same to everything else.
\<close>

theorem fireball_cast_recorded_never_read:
  assumes "map_of (players s) (s_playerId (clients s ! ws)) = Some p"
  shows "(let fb = \<lparr>f_id = real_of_int now + rnd 0, f_playerId = s_playerId (clients s ! ws),
                    f_startX = p_x p, f_startY = p_y p, f_targetX = tx, f_targetY = ty,
                    f_timestamp = now\<rparr>;
              s' = onMessage now rnd ws (Fireball tx ty) s
          in s' = s\<lparr>fireballs := fireballs s @ [fb],
                    clients := broadcast (FireballCast fb) None (clients s)\<rparr>
           \<and> (ws < length (clients s) \<and> s_open (clients s ! ws) \<longrightarrow>
                s_sent (clients s' ! ws) = s_sent (clients s ! ws) @ [FireballCast fb]))
       \<and> (\<forall>now' rnd' e t. step now' rnd' e s = Some t \<longrightarrow>
             fireballs t = fireballs s \<or>
             (\<exists>ws' tx' ty' fb'. e = Message ws' (Fireball tx' ty')
                \<and> fireballs t = fireballs s @ [fb']))
       \<and> (\<forall>now' rnd' e fs.
             step now' rnd' e (s\<lparr>fireballs := fs\<rparr>) =
               map_option (\<lambda>t. t\<lparr>fireballs := fs @ drop (length (fireballs s)) (fireballs t)\<rparr>)
                 (step now' rnd' e s))"
proof (intro conjI allI impI)
  show "let fb = \<lparr>f_id = real_of_int now + rnd 0, f_playerId = s_playerId (clients s ! ws),
                    f_startX = p_x p, f_startY = p_y p, f_targetX = tx, f_targetY = ty,
                    f_timestamp = now\<rparr>;
              s' = onMessage now rnd ws (Fireball tx ty) s
          in s' = s\<lparr>fireballs := fireballs s @ [fb],
                    clients := broadcast (FireballCast fb) None (clients s)\<rparr>
           \<and> (ws < length (clients s) \<and> s_open (clients s ! ws) \<longrightarrow>
                s_sent (clients s' ! ws) = s_sent (clients s ! ws) @ [FireballCast fb])"
    by (simp add: onMessage_Fireball [OF assms] Let_def nth_broadcast send_def)
next
  fix now' rnd' e t assume "step now' rnd' e s = Some t"
  then show "fireballs t = fireballs s \<or>
             (\<exists>ws' tx' ty' fb'. e = Message ws' (Fireball tx' ty')
                \<and> fireballs t = fireballs s @ [fb'])"
    by (rule step_fireballs_append)
next
  fix now' rnd' e fs
  show "step now' rnd' e (s\<lparr>fireballs := fs\<rparr>) =
               map_option (\<lambda>t. t\<lparr>fireballs := fs @ drop (length (fireballs s)) (fireballs t)\<rparr>)
                 (step now' rnd' e s)"
    by (rule step_fireballs_frame)
qed

theorem fireball_cast_recorded_never_read_witness:
  "map_of (players demoServer) (s_playerId (clients demoServer ! 0)) =
     Some \<lparr>p_id = 1, p_x = 5, p_y = 5, p_health = 100, p_maxHealth = 100\<rparr>
   \<and> 0 < length (clients demoServer) \<and> s_open (clients demoServer ! 0)
   \<and> s_sent (clients demoServer ! 0) = []
   \<and> s_sent (clients (onMessage 1000 (\<lambda>k. 0) 0 (Fireball 100 200) demoServer) ! 0) =
       [FireballCast \<lparr>f_id = 1000, f_playerId = 1, f_startX = 5, f_startY = 5, f_targetX = 100,
          f_targetY = 200, f_timestamp = 1000\<rparr>]
   \<and> fireballs (onMessage 1000 (\<lambda>k. 0) 0 (Fireball 100 200) demoServer) =
       fireballs demoServer @
       [\<lparr>f_id = 1000, f_playerId = 1, f_startX = 5, f_startY = 5, f_targetX = 100,
         f_targetY = 200, f_timestamp = 1000\<rparr>]
   \<and> step 2000 demoRnd (Message 0 (Move 6 5))
         (demoServer\<lparr>fireballs := [\<lparr>f_id = 1000, f_playerId = 1, f_startX = 5, f_startY = 5,
                                      f_targetX = 100, f_targetY = 200, f_timestamp = 1000\<rparr>]\<rparr>) =
       Some ((onMessage 2000 demoRnd 0 (Move 6 5) demoServer)
               \<lparr>fireballs := [\<lparr>f_id = 1000, f_playerId = 1, f_startX = 5, f_startY = 5,
                                f_targetX = 100, f_targetY = 200, f_timestamp = 1000\<rparr>]\<rparr>)"
proof -
  have f: "fireballs demoServer = []" by (simp add: demoServer_def)
  have m: "fireballs (onMessage 2000 demoRnd 0 (Move 6 5) demoServer) = []"
    by (simp add: onMessage_Move_valid [OF demo_player_0 demo_valid_6_5] f)
  from fireball_cast_recorded_never_read [OF demo_player_0, where now = 1000 and rnd = "\<lambda>k. 0"
      and tx = 100 and ty = 200]
  have "step 2000 demoRnd (Message 0 (Move 6 5))
          (demoServer\<lparr>fireballs := [\<lparr>f_id = 1000, f_playerId = 1, f_startX = 5, f_startY = 5,
                                f_targetX = 100, f_targetY = 200, f_timestamp = 1000\<rparr>]\<rparr>) =
        map_option (\<lambda>t. t\<lparr>fireballs := [\<lparr>f_id = 1000, f_playerId = 1, f_startX = 5, f_startY = 5,
                                f_targetX = 100, f_targetY = 200, f_timestamp = 1000\<rparr>] @
                           drop (length (fireballs demoServer)) (fireballs t)\<rparr>)
          (step 2000 demoRnd (Message 0 (Move 6 5)) demoServer)"
    by blast
  then have last: "step 2000 demoRnd (Message 0 (Move 6 5))
         (demoServer\<lparr>fireballs := [\<lparr>f_id = 1000, f_playerId = 1, f_startX = 5, f_startY = 5,
                                      f_targetX = 100, f_targetY = 200, f_timestamp = 1000\<rparr>]\<rparr>) =
       Some ((onMessage 2000 demoRnd 0 (Move 6 5) demoServer)
               \<lparr>fireballs := [\<lparr>f_id = 1000, f_playerId = 1, f_startX = 5, f_startY = 5,
                                f_targetX = 100, f_targetY = 200, f_timestamp = 1000\<rparr>]\<rparr>)"
    by (simp only: step.simps option.map m f list.size drop_0 append_Nil2)
  have first: "s_sent (clients (onMessage 1000 (\<lambda>k. 0) 0 (Fireball 100 200) demoServer) ! 0) =
       [FireballCast \<lparr>f_id = 1000, f_playerId = 1, f_startX = 5, f_startY = 5, f_targetX = 100,
          f_targetY = 200, f_timestamp = 1000\<rparr>]"
    "fireballs (onMessage 1000 (\<lambda>k. 0) 0 (Fireball 100 200) demoServer) =
       fireballs demoServer @
       [\<lparr>f_id = 1000, f_playerId = 1, f_startX = 5, f_startY = 5, f_targetX = 100,
         f_targetY = 200, f_timestamp = 1000\<rparr>]"
    by (simp_all add: demo_fireball f)
  have "0 < length (clients demoServer) \<and> s_open (clients demoServer ! 0)
   \<and> s_sent (clients demoServer ! 0) = []"
    by (simp add: demo_clients)
  with demo_player_0 first last show ?thesis by (intro conjI) blast+
qed

section \<open>Positions of players and monsters\<close>

lemma tile_walkable_bounds:
  assumes "wf_map m" "tile_walkable m x y = Some w"
  shows "0 \<le> x \<and> x < 20 \<and> 0 \<le> y \<and> y < 15"
proof -
  from assms(2) have y: "0 \<le> y" "nat y < length m"
    by (auto simp: tile_walkable_def split: if_splits)
  with assms(2) have x: "0 \<le> x" "nat x < length (m ! nat y)"
    by (auto simp: tile_walkable_def Let_def split: if_splits)
  from assms(1) y have "length (m ! nat y) = nat MAP_WIDTH" "length m = nat MAP_HEIGHT"
    by (simp_all add: wf_map_def list_all_length)
  with x y show ?thesis by (simp add: config_defs) linarith
qed

lemma walkable_tile_valid:
  assumes "wf_map m" "tile_walkable m x y = Some True"
  shows "isValidMove m x y = Some True"
  using tile_walkable_bounds [OF assms] assms(2) by (simp add: isValidMove_iff)

lemma findSpawnLoop_Some:
  "findSpawnLoop m rnd a = Some (x, y, n) \<Longrightarrow> a < 100 \<Longrightarrow>
   (\<exists>w. tile_walkable m x y = Some w) \<and> (tile_walkable m x y = Some True \<or> n = 100)"
proof (induction "99 - a" arbitrary: a)
  case 0
  then have a: "a = 99" by simp
  from "0.prems"(1) show ?case
    unfolding a by (subst (asm) findSpawnLoop_unfold) (auto split: option.splits)
next
  case (Suc d)
  then have a: "a + 1 < 100" by simp
  show ?case
  proof (cases "tile_walkable m (\<lfloor>rnd (2 * a) * 16\<rfloor> + 2) (\<lfloor>rnd (2 * a + 1) * 11\<rfloor> + 2)")
    case None
    with Suc.prems(1) show ?thesis by (subst (asm) findSpawnLoop_unfold) simp
  next
    case (Some w)
    show ?thesis
    proof (cases w)
      case True
      with Some Suc.prems(1) show ?thesis by (subst (asm) findSpawnLoop_unfold) auto
    next
      case False
      with Some a Suc.prems(1) have rec: "findSpawnLoop m rnd (a + 1) = Some (x, y, n)"
        by (subst (asm) findSpawnLoop_unfold) simp
      from Suc.hyps(2) have "d = 99 - (a + 1)" by simp
      from Suc.hyps(1) [OF this rec a] show ?thesis .
    qed
  qed
qed

lemma spawnMonsterLoop_walkable:
  assumes "spawnMonsterLoop m rnd k = Some r"
  shows "tile_walkable m (fst r) (fst (snd r)) = Some True"
proof (rule spawnMonsterLoop.raw_induct
    [where P = "\<lambda>m rnd k r. tile_walkable m (fst r) (fst (snd r)) = Some True", OF _ assms],
    goal_cases)
  case (1 loop m rnd k r)
  then show ?case
    by (auto simp: Let_def split: option.splits if_splits)
qed

lemma set_update_subset: "set (AList.update k v al) \<subseteq> insert (k, v) (set al)"
  by (induction al) auto

lemma set_delete_subset: "set (AList.delete k al) \<subseteq> set al"
  by (auto simp: AList.delete_eq)

lemma hitMonster_positions:
  "m' \<in> set (hitMonster mid d ms) \<Longrightarrow> \<exists>m\<in>set ms. m_x m' = m_x m \<and> m_y m' = m_y m"
  by (induction ms) (auto split: if_splits)

lemma nearestPlayerScan_mem:
  "nearestPlayerScan mon ps acc = (Some kp, d) \<Longrightarrow> kp \<in> set ps \<or> fst acc = Some kp"
proof (induction ps arbitrary: acc)
  case Nil
  then show ?case by simp
next
  case (Cons a ps)
  obtain k p where a: "a = (k, p)" by (cases a)
  obtain np md where acc: "acc = (np, md)" by (cases acc)
  let ?dist = "sqrt ((real_of_int (p_x p - m_x mon))\<^sup>2 + (real_of_int (p_y p - m_y mon))\<^sup>2)"
  show ?case
  proof (cases "lessInf ?dist md")
    case True
    with Cons.prems have "nearestPlayerScan mon ps (Some (k, p), Some ?dist) = (Some kp, d)"
      by (simp add: a acc Let_def)
    from Cons.IH [OF this] show ?thesis by (auto simp: a)
  next
    case False
    with Cons.prems have "nearestPlayerScan mon ps (np, md) = (Some kp, d)"
      by (simp add: a acc Let_def)
    from Cons.IH [OF this] show ?thesis by (auto simp: a acc)
  qed
qed
lemma monsterTick_players:
  assumes "monsterTick now rnd m mon (k, ps, cs) = Some (mon', k', ps', cs')"
    and "kp' \<in> set ps'"
  shows "\<exists>p. (fst kp', p) \<in> set ps \<and> p_x (snd kp') = p_x p \<and> p_y (snd kp') = p_y p"
proof (cases "ps' = ps")
  case True
  with assms(2) show ?thesis by (intro exI [of _ "snd kp'"]) simp
next
  case False
  with assms(1) obtain pid np md h where
    scan: "nearestPlayerScan mon ps (None, None) = (Some (pid, np), md)"
    and ps': "ps' = AList.update pid (np\<lparr>p_health := h\<rparr>) ps"
    by (auto simp: monsterTick_def Let_def split: prod.splits option.splits if_splits)
  from nearestPlayerScan_mem [OF scan] have np: "(pid, np) \<in> set ps" by simp
  from assms(2) ps' set_update_subset [of pid "np\<lparr>p_health := h\<rparr>" ps]
  have "kp' = (pid, np\<lparr>p_health := h\<rparr>) \<or> kp' \<in> set ps" by auto
  then show ?thesis
  proof
    assume "kp' = (pid, np\<lparr>p_health := h\<rparr>)"
    with np show ?thesis by (intro exI [of _ np]) simp
  next
    assume "kp' \<in> set ps"
    then show ?thesis by (intro exI [of _ "snd kp'"]) simp
  qed
qed

lemma gameLoopMonsters_positions:
  assumes "gameLoopMonsters now rnd m ms (k, ps, cs) = Some (ms', k', ps', cs')"
    and "\<forall>mon\<in>set ms. isValidMove m (m_x mon) (m_y mon) = Some True"
  shows "(\<forall>mon\<in>set ms'. isValidMove m (m_x mon) (m_y mon) = Some True)
       \<and> (\<forall>kp'\<in>set ps'. \<exists>p. (fst kp', p) \<in> set ps \<and> p_x (snd kp') = p_x p
              \<and> p_y (snd kp') = p_y p)"
  using assms
proof (induction ms arbitrary: k ps cs ms')
  case Nil
  then show ?case by auto
next
  case (Cons mon ms)
  from Cons.prems(1) obtain mon1 k1 ps1 cs1 rest1 where
    t: "monsterTick now rnd m mon (k, ps, cs) = Some (mon1, k1, ps1, cs1)"
    and r: "gameLoopMonsters now rnd m ms (k1, ps1, cs1) = Some (rest1, k', ps', cs')"
    and ms': "ms' = mon1 # rest1"
    by (auto split: option.splits)
  from Cons.prems(2) have rest: "\<forall>mon\<in>set ms. isValidMove m (m_x mon) (m_y mon) = Some True"
    and this_one: "isValidMove m (m_x mon) (m_y mon) = Some True"
    by simp_all
  from monsterTick_position [OF t] this_one
  have mon1: "isValidMove m (m_x mon1) (m_y mon1) = Some True" by auto
  from Cons.IH [OF r rest]
  have ih1: "\<forall>mon\<in>set rest1. isValidMove m (m_x mon) (m_y mon) = Some True"
    and ih2: "\<forall>kp'\<in>set ps'. \<exists>p. (fst kp', p) \<in> set ps1 \<and> p_x (snd kp') = p_x p
                \<and> p_y (snd kp') = p_y p"
    by simp_all
  have "\<forall>kp'\<in>set ps'. \<exists>p. (fst kp', p) \<in> set ps \<and> p_x (snd kp') = p_x p
              \<and> p_y (snd kp') = p_y p"
  proof
    fix kp' assume "kp' \<in> set ps'"
    with ih2 obtain p1 where p1: "(fst kp', p1) \<in> set ps1" "p_x (snd kp') = p_x p1"
      "p_y (snd kp') = p_y p1"
      by blast
    from monsterTick_players [OF t p1(1)] obtain p where
      "(fst kp', p) \<in> set ps" "p_x p1 = p_x p" "p_y p1 = p_y p"
      by auto
    with p1 show "\<exists>p. (fst kp', p) \<in> set ps \<and> p_x (snd kp') = p_x p \<and> p_y (snd kp') = p_y p"
      by (intro exI [of _ p]) simp
  qed
  with mon1 ih1 ms' show ?case by simp
qed

lemma gameLoop_positions:
  assumes "gameLoop now rnd s = Some t"
    and "\<forall>mon\<in>set (monsters s). isValidMove (gmap s) (m_x mon) (m_y mon) = Some True"
  shows "gmap t = gmap s
       \<and> (\<forall>mon\<in>set (monsters t). isValidMove (gmap s) (m_x mon) (m_y mon) = Some True)
       \<and> (\<forall>kp'\<in>set (players t). \<exists>p. (fst kp', p) \<in> set (players s)
              \<and> p_x (snd kp') = p_x p \<and> p_y (snd kp') = p_y p)"
proof -
  from assms(1) obtain ms' k' ps' cs' where
    g: "gameLoopMonsters now rnd (gmap s) (monsters s) (0, players s, clients s) =
          Some (ms', k', ps', cs')"
    and t: "t = s\<lparr>monsters := ms', players := ps', clients := cs'\<rparr>"
    by (auto simp: gameLoop_def split: option.splits)
  from gameLoopMonsters_positions [OF g assms(2)] show ?thesis by (simp add: t)
qed

lemma handleClientMessage_positions:
  assumes "handleClientMessage now rnd ws message s = Some t"
  shows "gmap t = gmap s
       \<and> (\<forall>m'\<in>set (monsters t). \<exists>m\<in>set (monsters s). m_x m' = m_x m \<and> m_y m' = m_y m)
       \<and> (\<forall>kp'\<in>set (players t). kp' \<in> set (players s)
              \<or> isValidMove (gmap s) (p_x (snd kp')) (p_y (snd kp')) = Some True)"
proof (cases "map_of (players s) (s_playerId (clients s ! ws))")
  case None
  with assms have "t = s" by (simp add: handleClientMessage_def)
  then show ?thesis by auto
next
  case (Some p)
  show ?thesis
  proof (cases message)
    case (Move x y)
    with assms Some have
      "t = s \<or> isValidMove (gmap s) x y = Some True
         \<and> t = s\<lparr>players := AList.update (s_playerId (clients s ! ws)) (p\<lparr>p_x := x, p_y := y\<rparr>)
                             (players s),
                  clients := broadcast (PlayerMoved (s_playerId (clients s ! ws)) x y) None
                               (clients s)\<rparr>"
      by (auto simp: handleClientMessage_def Let_def split: option.splits bool.splits)
    then show ?thesis
    proof
      assume "t = s"
      then show ?thesis by auto
    next
      assume a: "isValidMove (gmap s) x y = Some True
         \<and> t = s\<lparr>players := AList.update (s_playerId (clients s ! ws)) (p\<lparr>p_x := x, p_y := y\<rparr>)
                             (players s),
                  clients := broadcast (PlayerMoved (s_playerId (clients s ! ws)) x y) None
                               (clients s)\<rparr>"
      with set_update_subset [of "s_playerId (clients s ! ws)" "p\<lparr>p_x := x, p_y := y\<rparr>" "players s"]
      show ?thesis by auto
    qed
  next
    case (Fireball tx ty)
    with assms Some show ?thesis by (auto simp: handleClientMessage_def Let_def)
  next
    case (Attack mid)
    from assms Some have t: "t = damageContract now (\<lfloor>rnd 0 * 5\<rfloor> + 8) mid s"
      by (simp add: Attack attack_contract [OF Some])
    show ?thesis unfolding t
      by (auto simp: damageContract_def split: option.splits dest: hitMonster_positions)
  next
    case (FireballHit mid)
    from assms Some have t: "t = damageContract now 15 mid s"
      by (simp add: FireballHit fireballHit_contract [OF Some])
    show ?thesis unfolding t
      by (auto simp: damageContract_def split: option.splits dest: hitMonster_positions)
  next
    case Other
    with assms Some show ?thesis by (auto simp: handleClientMessage_def)
  qed
qed

lemma onMessage_positions:
  "gmap (onMessage now rnd ws message s) = gmap s
   \<and> (\<forall>m'\<in>set (monsters (onMessage now rnd ws message s)).
         \<exists>m\<in>set (monsters s). m_x m' = m_x m \<and> m_y m' = m_y m)
   \<and> (\<forall>kp'\<in>set (players (onMessage now rnd ws message s)). kp' \<in> set (players s)
          \<or> isValidMove (gmap s) (p_x (snd kp')) (p_y (snd kp')) = Some True)"
proof (cases "handleClientMessage now rnd ws message s")
  case None
  then show ?thesis by (auto simp: onMessage_def)
next
  case (Some t)
  from handleClientMessage_positions [OF Some] Some show ?thesis by (simp add: onMessage_def)
qed

lemma fireTimer_positions:
  assumes "fireTimer now rnd s = Some t" and wf: "wf_map (gmap s)"
  shows "gmap t = gmap s \<and> players t = players s
       \<and> (\<forall>m'\<in>set (monsters t). m' \<in> set (monsters s)
              \<or> isValidMove (gmap s) (m_x m') (m_y m') = Some True)"
proof (cases "t = s")
  case True
  then show ?thesis by simp
next
  case False
  with assms(1) obtain due rest x y k' where
    loop: "spawnMonsterLoop (gmap s) rnd 0 = Some (x, y, k')"
    and t: "t = (s\<lparr>timers := rest,
                    monsters := monsters s @
                      [\<lparr>m_id = real_of_int now + rnd k', m_x = x, m_y = y, m_health = 50,
                        m_maxHealth = 50, m_lastMove = now\<rparr>]\<rparr>)
                 \<lparr>clients := broadcast (MonsterSpawned
                      \<lparr>m_id = real_of_int now + rnd k', m_x = x, m_y = y, m_health = 50,
                        m_maxHealth = 50, m_lastMove = now\<rparr>) None (clients s)\<rparr>"
    by (auto simp: fireTimer_def respawn_def spawnMonster_def Let_def
        split: list.splits if_splits option.splits prod.splits)
  from spawnMonsterLoop_walkable [OF loop] have "tile_walkable (gmap s) x y = Some True" by simp
  from walkable_tile_valid [OF wf this] show ?thesis by (auto simp: t)
qed

lemma onConnection_positions:
  assumes "onConnection rnd s = Some t" and wf: "wf_map (gmap s)"
  shows "gmap t = gmap s \<and> monsters t = monsters s
       \<and> (\<forall>kp'\<in>set (players t). kp' \<in> set (players s)
            \<or> (0 \<le> p_x (snd kp') \<and> p_x (snd kp') < 20 \<and> 0 \<le> p_y (snd kp') \<and> p_y (snd kp') < 15)
              \<and> (isValidMove (gmap s) (p_x (snd kp')) (p_y (snd kp')) = Some True
                 \<or> fst kp' = nextPlayerId s
                   \<and> findSpawnLoop (gmap s) rnd 0 = Some (p_x (snd kp'), p_y (snd kp'), 100)))"
proof -
  from assms(1) obtain x y n where
    loop: "findSpawnLoop (gmap s) rnd 0 = Some (x, y, n)"
    and t: "gmap t = gmap s" "monsters t = monsters s"
      "players t = AList.update (nextPlayerId s)
         \<lparr>p_id = nextPlayerId s, p_x = x, p_y = y, p_health = 100, p_maxHealth = 100\<rparr> (players s)"
    by (auto simp: onConnection_def findSpawnPosition_def Let_def split: option.splits prod.splits)
  from findSpawnLoop_Some [OF loop] obtain w where
    w: "tile_walkable (gmap s) x y = Some w" and last: "tile_walkable (gmap s) x y = Some True \<or> n = 100"
    by auto
  from tile_walkable_bounds [OF wf w] have b: "0 \<le> x \<and> x < 20 \<and> 0 \<le> y \<and> y < 15" .
  from last have "isValidMove (gmap s) x y = Some True \<or> n = 100"
    using walkable_tile_valid [OF wf] by blast
  with loop have v: "isValidMove (gmap s) x y = Some True
      \<or> findSpawnLoop (gmap s) rnd 0 = Some (x, y, 100)"
    by auto
  have "\<forall>kp'\<in>set (players t). kp' \<in> set (players s)
            \<or> (0 \<le> p_x (snd kp') \<and> p_x (snd kp') < 20 \<and> 0 \<le> p_y (snd kp') \<and> p_y (snd kp') < 15)
              \<and> (isValidMove (gmap s) (p_x (snd kp')) (p_y (snd kp')) = Some True
                 \<or> fst kp' = nextPlayerId s
                   \<and> findSpawnLoop (gmap s) rnd 0 = Some (p_x (snd kp'), p_y (snd kp'), 100))"
  proof
    fix kp' assume "kp' \<in> set (players t)"
    with t(3) set_update_subset [of "nextPlayerId s" _ "players s"]
    have "kp' = (nextPlayerId s,
        \<lparr>p_id = nextPlayerId s, p_x = x, p_y = y, p_health = 100, p_maxHealth = 100\<rparr>)
      \<or> kp' \<in> set (players s)"
      by auto
    with b v show "kp' \<in> set (players s)
            \<or> (0 \<le> p_x (snd kp') \<and> p_x (snd kp') < 20 \<and> 0 \<le> p_y (snd kp') \<and> p_y (snd kp') < 15)
              \<and> (isValidMove (gmap s) (p_x (snd kp')) (p_y (snd kp')) = Some True
                 \<or> fst kp' = nextPlayerId s
                   \<and> findSpawnLoop (gmap s) rnd 0 = Some (p_x (snd kp'), p_y (snd kp'), 100))"
      by auto
  qed
  with t show ?thesis by simp
qed

lemma onClose_positions:
  "gmap (onClose ws s) = gmap s \<and> monsters (onClose ws s) = monsters s
   \<and> set (players (onClose ws s)) \<subseteq> set (players s)"
  by (simp add: onClose_def Let_def set_delete_subset)
lemma spawnMonster_valid:
  assumes "spawnMonster now rnd k s = Some (mon, k', s')" and wf: "wf_map (gmap s)"
  shows "gmap s' = gmap s \<and> players s' = players s \<and> monsters s' = monsters s @ [mon]
       \<and> isValidMove (gmap s) (m_x mon) (m_y mon) = Some True"
proof -
  from assms(1) obtain x y k0 where
    loop: "spawnMonsterLoop (gmap s) rnd k = Some (x, y, k0)"
    and mon: "m_x mon = x" "m_y mon = y"
    and s': "s' = s\<lparr>monsters := monsters s @ [mon]\<rparr>"
    by (auto simp: spawnMonster_def Let_def split: option.splits prod.splits)
  from spawnMonsterLoop_walkable [OF loop] have "tile_walkable (gmap s) x y = Some True" by simp
  from walkable_tile_valid [OF wf this] mon s' show ?thesis by simp
qed

lemma spawnMonsters_valid:
  assumes "spawnMonsters n now rnd k s = Some t" and "wf_map (gmap s)"
    and "\<forall>m\<in>set (monsters s). isValidMove (gmap s) (m_x m) (m_y m) = Some True"
  shows "gmap t = gmap s \<and> players t = players s
       \<and> (\<forall>m\<in>set (monsters t). isValidMove (gmap s) (m_x m) (m_y m) = Some True)"
  using assms
proof (induction n arbitrary: k s)
  case 0
  then show ?case by simp
next
  case (Suc n)
  from Suc.prems(1) obtain mon k' s' where
    one: "spawnMonster now rnd k s = Some (mon, k', s')"
    and rest: "spawnMonsters n now rnd k' s' = Some t"
    by (auto split: option.splits)
  from spawnMonster_valid [OF one Suc.prems(2)]
  have s': "gmap s' = gmap s" "players s' = players s" "monsters s' = monsters s @ [mon]"
    "isValidMove (gmap s) (m_x mon) (m_y mon) = Some True"
    by simp_all
  with Suc.prems have "wf_map (gmap s')"
    "\<forall>m\<in>set (monsters s'). isValidMove (gmap s') (m_x m) (m_y m) = Some True"
    by simp_all
  from Suc.IH [OF rest this] s' show ?case by simp
qed

lemma initGame_positions:
  assumes "initGame now rnd s = Some t" and "monsters s = []"
  shows "wf_map (gmap t) \<and> players t = players s
       \<and> (\<forall>m\<in>set (monsters t). isValidMove (gmap t) (m_x m) (m_y m) = Some True)"
proof -
  let ?s = "s\<lparr>gmap := generateMap rnd\<rparr>"
  from assms(1) have "spawnMonsters MONSTER_COUNT now rnd (nat MAP_HEIGHT * nat MAP_WIDTH) ?s = Some t"
    by (simp add: initGame_def)
  moreover have "wf_map (gmap ?s)" by (simp add: generateMap_wf)
  moreover from assms(2)
  have "\<forall>m\<in>set (monsters ?s). isValidMove (gmap ?s) (m_x m) (m_y m) = Some True" by simp
  ultimately have "gmap t = gmap ?s \<and> players t = players ?s
       \<and> (\<forall>m\<in>set (monsters t). isValidMove (gmap ?s) (m_x m) (m_y m) = Some True)"
    by (rule spawnMonsters_valid)
  then show ?thesis by (simp add: generateMap_wf)
qed
lemma demo_connect_fallback:
  "onConnection (\<lambda>k. 0) demoServer =
     Some (demoServer
       \<lparr>nextPlayerId := 5,
        players := [(1, \<lparr>p_id = 1, p_x = 5, p_y = 5, p_health = 100, p_maxHealth = 100\<rparr>),
                    (2, \<lparr>p_id = 2, p_x = 10, p_y = 8, p_health = 5, p_maxHealth = 100\<rparr>),
                    (4, \<lparr>p_id = 4, p_x = 2, p_y = 2, p_health = 100, p_maxHealth = 100\<rparr>)],
        clients := broadcast
           (PlayerJoined \<lparr>p_id = 4, p_x = 2, p_y = 2, p_health = 100, p_maxHealth = 100\<rparr>) (Some 3)
           (sendToClient 3
              (Init 4 demoMap
                 [\<lparr>p_id = 1, p_x = 5, p_y = 5, p_health = 100, p_maxHealth = 100\<rparr>,
                  \<lparr>p_id = 2, p_x = 10, p_y = 8, p_health = 5, p_maxHealth = 100\<rparr>,
                  \<lparr>p_id = 4, p_x = 2, p_y = 2, p_health = 100, p_maxHealth = 100\<rparr>]
                 (monsters demoServer))
              (clients demoServer @ [\<lparr>s_playerId = 4, s_open = True, s_sent = []\<rparr>]))\<rparr>)"
proof -
  have "gmap demoServer = demoMap" "nextPlayerId demoServer = 4"
    "players demoServer =
       [(1, \<lparr>p_id = 1, p_x = 5, p_y = 5, p_health = 100, p_maxHealth = 100\<rparr>),
        (2, \<lparr>p_id = 2, p_x = 10, p_y = 8, p_health = 5, p_maxHealth = 100\<rparr>)]"
    "length (clients demoServer) = 3"
    by (simp_all add: demoServer_def)
  then show ?thesis
    by (simp add: onConnection_def findSpawnPosition_def demo_spawn_fallback Let_def)
qed

lemma demo_positions_valid:
  "isValidMove demoMap 5 5 = Some True" "isValidMove demoMap 10 8 = Some True"
  "isValidMove demoMap 5 7 = Some True"
  by (simp_all add: isValidMove_def tile_walkable_def demo_defs config_defs)

text \<open>
  Claim C6 says that every player is on a walkable tile after every operation, the
  newly connected player included. The search for a spawn position stops after 100
  tries and returns its last sample whatever its tile is: in the example state, where
  every player and monster is on a walkable tile, a player who connects when every draw
  of \<^verbatim>\<open>Math.random()\<close> is 0 is placed at \<open>(2, 2)\<close>, which is a tree.
\<close>

theorem new_player_on_non_walkable_tile:
  "list_all (\<lambda>(k, p). isValidMove (gmap demoServer) (p_x p) (p_y p) = Some True) (players demoServer)
   \<and> list_all (\<lambda>m. isValidMove (gmap demoServer) (m_x m) (m_y m) = Some True) (monsters demoServer)
   \<and> tile_walkable (gmap demoServer) 2 2 = Some False
   \<and> (\<exists>t. step 0 (\<lambda>k. 0) Connect demoServer = Some t
          \<and> gmap t = gmap demoServer
          \<and> map_of (players t) 4 =
              Some \<lparr>p_id = 4, p_x = 2, p_y = 2, p_health = 100, p_maxHealth = 100\<rparr>)"
proof -
  have "list_all (\<lambda>(k, p). isValidMove (gmap demoServer) (p_x p) (p_y p) = Some True)
          (players demoServer)"
    "list_all (\<lambda>m. isValidMove (gmap demoServer) (m_x m) (m_y m) = Some True) (monsters demoServer)"
    "tile_walkable (gmap demoServer) 2 2 = Some False"
    by (simp_all add: demoServer_def demo_positions_valid demo_tile_2_2)
  then show ?thesis by (simp add: demo_connect_fallback)
qed

lemma positions_assemble:
  assumes G: "gmap t = gmap s" and wf: "wf_map (gmap s)"
    and M: "\<And>m. m \<in> set (monsters t) \<Longrightarrow> isValidMove (gmap s) (m_x m) (m_y m) = Some True"
    and P: "\<And>k p'. (k, p') \<in> set (players t) \<Longrightarrow>
              (0 \<le> p_x p' \<and> p_x p' < 20 \<and> 0 \<le> p_y p' \<and> p_y p' < 15)
              \<and> (isValidMove (gmap s) (p_x p') (p_y p') = Some True
                 \<or> (\<exists>p. (k, p) \<in> set (players s) \<and> p_x p' = p_x p \<and> p_y p' = p_y p)
                 \<or> e = Connect \<and> k = nextPlayerId s
                   \<and> findSpawnLoop (gmap s) rnd 0 = Some (p_x p', p_y p', 100))"
  shows "wf_map (gmap t)
       \<and> (\<forall>m\<in>set (monsters t). isValidMove (gmap t) (m_x m) (m_y m) = Some True)
       \<and> (\<forall>(k, p)\<in>set (players t). 0 \<le> p_x p \<and> p_x p < 20 \<and> 0 \<le> p_y p \<and> p_y p < 15)
       \<and> (\<forall>(k, p')\<in>set (players t).
            isValidMove (gmap t) (p_x p') (p_y p') = Some True
            \<or> (\<exists>p. (k, p) \<in> set (players s) \<and> p_x p' = p_x p \<and> p_y p' = p_y p)
            \<or> e = Connect \<and> k = nextPlayerId s
              \<and> findSpawnLoop (gmap s) rnd 0 = Some (p_x p', p_y p', 100))"
proof (intro conjI ballI)
  show "wf_map (gmap t)" by (simp add: G wf)
next
  fix m assume "m \<in> set (monsters t)"
  then show "isValidMove (gmap t) (m_x m) (m_y m) = Some True" by (simp add: G M)
next
  fix kp assume kp: "kp \<in> set (players t)"
  obtain k p where [simp]: "kp = (k, p)" by (cases kp)
  from kp P [of k p]
  show "case kp of (k, p) \<Rightarrow> 0 \<le> p_x p \<and> p_x p < 20 \<and> 0 \<le> p_y p \<and> p_y p < 15" by simp
next
  fix kp assume kp: "kp \<in> set (players t)"
  obtain k p where [simp]: "kp = (k, p)" by (cases kp)
  from kp P [of k p]
  show "case kp of (k, p') \<Rightarrow>
            isValidMove (gmap t) (p_x p') (p_y p') = Some True
            \<or> (\<exists>p. (k, p) \<in> set (players s) \<and> p_x p' = p_x p \<and> p_y p' = p_y p)
            \<or> e = Connect \<and> k = nextPlayerId s
              \<and> findSpawnLoop (gmap s) rnd 0 = Some (p_x p', p_y p', 100)"
    by (simp add: G)
qed

text \<open>
  Claim C6, amended. Let the map have the generated shape, every monster be on a
  walkable tile within the bounds and every player be within the bounds. After every
  event of the server that is still so, and every player is on a walkable tile within
  the bounds unless the player stands where it stood before the event, or the event is
  the player's connection and the search for its spawn position has used all of its 100
  tries: then the player is at the last sampled position, within the bounds, whatever
  the tile.
\<close>

theorem positions_valid_except_spawn_fallback:
  assumes wf: "wf_map (gmap s)"
    and mons: "\<forall>m\<in>set (monsters s). isValidMove (gmap s) (m_x m) (m_y m) = Some True"
    and pls: "\<forall>(k, p)\<in>set (players s). 0 \<le> p_x p \<and> p_x p < 20 \<and> 0 \<le> p_y p \<and> p_y p < 15"
    and st: "step now rnd e s = Some t"
  shows "wf_map (gmap t)
       \<and> (\<forall>m\<in>set (monsters t). isValidMove (gmap t) (m_x m) (m_y m) = Some True)
       \<and> (\<forall>(k, p)\<in>set (players t). 0 \<le> p_x p \<and> p_x p < 20 \<and> 0 \<le> p_y p \<and> p_y p < 15)
       \<and> (\<forall>(k, p')\<in>set (players t).
            isValidMove (gmap t) (p_x p') (p_y p') = Some True
            \<or> (\<exists>p. (k, p) \<in> set (players s) \<and> p_x p' = p_x p \<and> p_y p' = p_y p)
            \<or> e = Connect \<and> k = nextPlayerId s
              \<and> findSpawnLoop (gmap s) rnd 0 = Some (p_x p', p_y p', 100))"
proof -
  have old: "(0 \<le> p_x p \<and> p_x p < 20 \<and> 0 \<le> p_y p \<and> p_y p < 15)
      \<and> (\<exists>q. (k, q) \<in> set (players s) \<and> p_x p = p_x q \<and> p_y p = p_y q)"
    if "(k, p) \<in> set (players s)" for k p
    using that pls by auto
  have valid: "0 \<le> x \<and> x < 20 \<and> 0 \<le> y \<and> y < 15"
    if "isValidMove (gmap s) x y = Some True" for x y
    using that by (simp add: isValidMove_iff)
  show ?thesis
  proof (cases e)
    case Connect
    with st have c: "onConnection rnd s = Some t" by simp
    note r = onConnection_positions [OF c wf]
    show ?thesis
    proof (rule positions_assemble [OF _ wf])
      show "gmap t = gmap s" using r by simp
    next
      fix m assume "m \<in> set (monsters t)"
      with r mons show "isValidMove (gmap s) (m_x m) (m_y m) = Some True" by simp
    next
      fix k p' assume kp: "(k, p') \<in> set (players t)"
      with r have "(k, p') \<in> set (players s)
            \<or> (0 \<le> p_x p' \<and> p_x p' < 20 \<and> 0 \<le> p_y p' \<and> p_y p' < 15)
              \<and> (isValidMove (gmap s) (p_x p') (p_y p') = Some True
                 \<or> k = nextPlayerId s
                   \<and> findSpawnLoop (gmap s) rnd 0 = Some (p_x p', p_y p', 100))"
        by force
      with old [of k p'] Connect
      show "(0 \<le> p_x p' \<and> p_x p' < 20 \<and> 0 \<le> p_y p' \<and> p_y p' < 15)
              \<and> (isValidMove (gmap s) (p_x p') (p_y p') = Some True
                 \<or> (\<exists>p. (k, p) \<in> set (players s) \<and> p_x p' = p_x p \<and> p_y p' = p_y p)
                 \<or> e = Connect \<and> k = nextPlayerId s
                   \<and> findSpawnLoop (gmap s) rnd 0 = Some (p_x p', p_y p', 100))"
        by blast
    qed
  next
    case (Message ws message)
    with st have t: "t = onMessage now rnd ws message s" by simp
    note r = onMessage_positions [of now rnd ws message s, folded t]
    show ?thesis
    proof (rule positions_assemble [OF _ wf])
      show "gmap t = gmap s" using r by simp
    next
      fix m assume "m \<in> set (monsters t)"
      with r obtain m0 where "m0 \<in> set (monsters s)" "m_x m = m_x m0" "m_y m = m_y m0" by blast
      with mons show "isValidMove (gmap s) (m_x m) (m_y m) = Some True" by simp
    next
      fix k p' assume kp: "(k, p') \<in> set (players t)"
      with r have "(k, p') \<in> set (players s)
          \<or> isValidMove (gmap s) (p_x p') (p_y p') = Some True"
        by force
      with old [of k p'] valid [of "p_x p'" "p_y p'"]
      show "(0 \<le> p_x p' \<and> p_x p' < 20 \<and> 0 \<le> p_y p' \<and> p_y p' < 15)
              \<and> (isValidMove (gmap s) (p_x p') (p_y p') = Some True
                 \<or> (\<exists>p. (k, p) \<in> set (players s) \<and> p_x p' = p_x p \<and> p_y p' = p_y p)
                 \<or> e = Connect \<and> k = nextPlayerId s
                   \<and> findSpawnLoop (gmap s) rnd 0 = Some (p_x p', p_y p', 100))"
        by blast
    qed
  next
    case (Close ws)
    with st have t: "t = onClose ws s" by simp
    note r = onClose_positions [of ws s, folded t]
    show ?thesis
    proof (rule positions_assemble [OF _ wf])
      show "gmap t = gmap s" using r by simp
    next
      fix m assume "m \<in> set (monsters t)"
      with r mons show "isValidMove (gmap s) (m_x m) (m_y m) = Some True" by simp
    next
      fix k p' assume kp: "(k, p') \<in> set (players t)"
      with r have "(k, p') \<in> set (players s)" by blast
      from old [OF this]
      show "(0 \<le> p_x p' \<and> p_x p' < 20 \<and> 0 \<le> p_y p' \<and> p_y p' < 15)
              \<and> (isValidMove (gmap s) (p_x p') (p_y p') = Some True
                 \<or> (\<exists>p. (k, p) \<in> set (players s) \<and> p_x p' = p_x p \<and> p_y p' = p_y p)
                 \<or> e = Connect \<and> k = nextPlayerId s
                   \<and> findSpawnLoop (gmap s) rnd 0 = Some (p_x p', p_y p', 100))"
        by blast
    qed
  next
    case Tick
    with st have g: "gameLoop now rnd s = Some t" by simp
    note r = gameLoop_positions [OF g mons]
    show ?thesis
    proof (rule positions_assemble [OF _ wf])
      show "gmap t = gmap s" using r by simp
    next
      fix m assume "m \<in> set (monsters t)"
      with r show "isValidMove (gmap s) (m_x m) (m_y m) = Some True" by simp
    next
      fix k p' assume kp: "(k, p') \<in> set (players t)"
      with r obtain p where p: "(k, p) \<in> set (players s)" "p_x p' = p_x p" "p_y p' = p_y p"
        by force
      from old [OF p(1)] p
      show "(0 \<le> p_x p' \<and> p_x p' < 20 \<and> 0 \<le> p_y p' \<and> p_y p' < 15)
              \<and> (isValidMove (gmap s) (p_x p') (p_y p') = Some True
                 \<or> (\<exists>p. (k, p) \<in> set (players s) \<and> p_x p' = p_x p \<and> p_y p' = p_y p)
                 \<or> e = Connect \<and> k = nextPlayerId s
                   \<and> findSpawnLoop (gmap s) rnd 0 = Some (p_x p', p_y p', 100))"
        by auto
    qed
  next
    case Timer
    with st have f: "fireTimer now rnd s = Some t" by simp
    note r = fireTimer_positions [OF f wf]
    show ?thesis
    proof (rule positions_assemble [OF _ wf])
      show "gmap t = gmap s" using r by simp
    next
      fix m assume "m \<in> set (monsters t)"
      with r mons show "isValidMove (gmap s) (m_x m) (m_y m) = Some True" by blast
    next
      fix k p' assume kp: "(k, p') \<in> set (players t)"
      with r have "(k, p') \<in> set (players s)" by simp
      from old [OF this]
      show "(0 \<le> p_x p' \<and> p_x p' < 20 \<and> 0 \<le> p_y p' \<and> p_y p' < 15)
              \<and> (isValidMove (gmap s) (p_x p') (p_y p') = Some True
                 \<or> (\<exists>p. (k, p) \<in> set (players s) \<and> p_x p' = p_x p \<and> p_y p' = p_y p)
                 \<or> e = Connect \<and> k = nextPlayerId s
                   \<and> findSpawnLoop (gmap s) rnd 0 = Some (p_x p', p_y p', 100))"
        by blast
    qed
  qed
qed
theorem positions_valid_except_spawn_fallback_witness:
  "wf_map (gmap demoServer)
   \<and> list_all (\<lambda>m. isValidMove (gmap demoServer) (m_x m) (m_y m) = Some True) (monsters demoServer)
   \<and> list_all (\<lambda>(k, p). 0 \<le> p_x p \<and> p_x p < 20 \<and> 0 \<le> p_y p \<and> p_y p < 15) (players demoServer)
   \<and> (\<exists>t. step 0 (\<lambda>k. 0) Connect demoServer = Some t
          \<and> wf_map (gmap t)
          \<and> list_all (\<lambda>m. isValidMove (gmap t) (m_x m) (m_y m) = Some True) (monsters t)
          \<and> list_all (\<lambda>(k, p). 0 \<le> p_x p \<and> p_x p < 20 \<and> 0 \<le> p_y p \<and> p_y p < 15) (players t)
          \<and> map_of (players t) 4 =
              Some \<lparr>p_id = 4, p_x = 2, p_y = 2, p_health = 100, p_maxHealth = 100\<rparr>
          \<and> nextPlayerId demoServer = 4
          \<and> findSpawnLoop (gmap demoServer) (\<lambda>k. 0) 0 = Some (2, 2, 100))"
proof -
  have g: "gmap demoServer = demoMap" by (simp add: demoServer_def)
  have wf: "wf_map (gmap demoServer)" by (simp add: g demo_wf)
  have mons: "\<forall>m\<in>set (monsters demoServer).
      isValidMove (gmap demoServer) (m_x m) (m_y m) = Some True"
    by (simp add: demoServer_def demo_positions_valid)
  have pls: "\<forall>(k, p)\<in>set (players demoServer).
      0 \<le> p_x p \<and> p_x p < 20 \<and> 0 \<le> p_y p \<and> p_y p < 15"
    by (simp add: demoServer_def)
  obtain t where st: "step 0 (\<lambda>k. 0) Connect demoServer = Some t"
    and p4: "map_of (players t) 4 =
              Some \<lparr>p_id = 4, p_x = 2, p_y = 2, p_health = 100, p_maxHealth = 100\<rparr>"
    by (simp add: demo_connect_fallback)
  have n: "nextPlayerId demoServer = 4" by (simp add: demoServer_def)
  from positions_valid_except_spawn_fallback [OF wf mons pls st]
  have "wf_map (gmap t)
      \<and> list_all (\<lambda>m. isValidMove (gmap t) (m_x m) (m_y m) = Some True) (monsters t)
      \<and> list_all (\<lambda>(k, p). 0 \<le> p_x p \<and> p_x p < 20 \<and> 0 \<le> p_y p \<and> p_y p < 15) (players t)"
    by (simp add: list_all_iff)
  with wf mons pls st p4 n demo_spawn_fallback show ?thesis
    by (simp add: list_all_iff g)
qed

end
